theory Spec2Isabelle
  imports Main
begin

section \<open>Strings and errors of the Go runtime\<close>

abbreviation NL :: string where
  "NL \<equiv> [CHR 0x0A]"

text \<open>\<open>strings.Join(elems, sep)\<close>.\<close>

fun strings_Join :: "string list \<Rightarrow> string \<Rightarrow> string" where
  "strings_Join [] sep = []"
| "strings_Join [s] sep = s"
| "strings_Join (s # t # ss) sep = s @ sep @ strings_Join (t # ss) sep"

text \<open>\<open>strings.HasPrefix(s, p)\<close>.\<close>

fun strings_HasPrefix :: "string \<Rightarrow> string \<Rightarrow> bool" where
  "strings_HasPrefix s [] = True"
| "strings_HasPrefix [] (p # ps) = False"
| "strings_HasPrefix (c # s) (p # ps) = (c = p \<and> strings_HasPrefix s ps)"

text \<open>
  \<open>strings.Index(s, sep)\<close> and \<open>strings.LastIndex(s, sep)\<close>: the byte offset of the
  first (last) occurrence of \<open>sep\<close> in \<open>s\<close>, or \<open>-1\<close>.
\<close>

fun strings_Index :: "string \<Rightarrow> string \<Rightarrow> int" where
  "strings_Index [] sep = (if sep = [] then 0 else - 1)"
| "strings_Index (c # s) sep =
     (if strings_HasPrefix (c # s) sep then 0
      else (let i = strings_Index s sep in if i = - 1 then - 1 else i + 1))"

fun strings_LastIndex :: "string \<Rightarrow> string \<Rightarrow> int" where
  "strings_LastIndex [] sep = (if sep = [] then 0 else - 1)"
| "strings_LastIndex (c # s) sep =
     (let i = strings_LastIndex s sep in
      if i \<noteq> - 1 then i + 1
      else if strings_HasPrefix (c # s) sep then 0 else - 1)"

text \<open>\<open>strings.Split(s, "\n")\<close>: the lines of \<open>s\<close>; never empty.\<close>

fun splitLines :: "string \<Rightarrow> string list" where
  "splitLines [] = [[]]"
| "splitLines (c # s) =
     (if c = CHR 0x0A then [] # splitLines s
      else (case splitLines s of
              [] \<Rightarrow> [[c]]
            | l # ls \<Rightarrow> (c # l) # ls))"

text \<open>\<open>fmt.Sprintf("%t", b)\<close> and \<open>fmt.Sprintf("%d", n)\<close> for a non-negative \<open>n\<close>.\<close>

definition fmtBool :: "bool \<Rightarrow> string" where
  "fmtBool b = (if b then ''true'' else ''false'')"

fun fmtNat :: "nat \<Rightarrow> string" where
  "fmtNat n =
     (if n < 10 then [char_of (48 + n)]
      else fmtNat (n div 10) @ [char_of (48 + n mod 10)])"

declare fmtNat.simps [simp del]

text \<open>
  A Go \<open>error\<close> value: an underlying error with its message, an error built by
  \<open>fmt.Errorf(prefix + "%w", err)\<close>, or the result of \<open>errors.Join\<close>.
  A nil error is \<open>None\<close> of \<open>error option\<close>.
\<close>

datatype error = Cause string | Wrap string error | Joined "error list"

fun Error_msg :: "error \<Rightarrow> string" where
  "Error_msg (Cause s) = s"
| "Error_msg (Wrap prefix e) = prefix @ Error_msg e"
| "Error_msg (Joined es) = strings_Join (map Error_msg es) NL"

text \<open>\<open>errors.Join(errs...)\<close> on a slice of non-nil errors: nil when the slice is empty.\<close>

definition errors_Join :: "error list \<Rightarrow> error option" where
  "errors_Join errs = (if errs = [] then None else Some (Joined errs))"

text \<open>\<open>context.Context.Err()\<close>.\<close>

datatype ctx_error = NoError | DeadlineExceeded | Canceled

section \<open>Data model\<close>

text \<open>
  Modelled from the spec: the types \<open>Task\<close>, \<open>Expectation\<close>, \<open>EvalConfig\<close> of package
  main and \<open>LLMConfig\<close>, \<open>Failure\<close>, \<open>TaskResult\<close> (with its method \<open>AddFailure\<close>) of
  package model are declared outside the files at hand. The records hold the fields
  that eval.go reads and writes, under the names it uses; a script step is kept
  opaque (eval.go only hands it to its method \<open>ResolvePrompt\<close>, which is a field
  of the world below). The string behind the constant \<open>IsolationModeCluster\<close> is
  not in the files at hand either; nothing proved here depends on it.
\<close>

record Expectation =
  Contains :: string

type_synonym ScriptStep = string

record Task =
  Setup :: string
  Verifier :: string
  Cleanup :: string
  Expect :: "Expectation list"
  Script :: "ScriptStep list"
  Timeout :: string
  Isolation :: string
  Disabled :: bool

definition IsolationModeCluster :: string where
  "IsolationModeCluster = ''cluster''"

record LLMConfig =
  ID :: string
  ProviderID :: string
  ModelID :: string
  EnableToolUseShim :: bool
  Quiet :: bool
  McpClient :: bool

record Failure =
  Message :: string

record TaskResult =
  Task :: string
  LLMConfig :: LLMConfig
  Result :: string
  Error :: string
  Failures :: "Failure list"

text \<open>
  Modelled from the spec: \<open>AddFailure(format, args...)\<close> appends one Failure record,
  whose message is the formatted text, to the ordered sequence of Failures.
\<close>

definition AddFailure :: "string \<Rightarrow> TaskResult \<Rightarrow> TaskResult" where
  "AddFailure msg r = r\<lparr>Failures := Failures r @ [\<lparr>Message = msg\<rparr>]\<rparr>"

record EvalConfig =
  ConfigAgentBin :: string
  KubeConfig :: string
  OutputDir :: string
  TasksDir :: string
  TaskPattern :: string
  ClusterProvider :: string

section \<open>The world outside the program\<close>

text \<open>
  A command as \<open>exec.CommandContext\<close> builds it and the code then fills in:
  the context it is bound to (none for \<open>exec.Command\<close>), \<open>Args\<close> (the path
  followed by the arguments), the working directory, what is appended to
  \<open>os.Environ()\<close>, and the text fed to standard input.
\<close>

datatype go_context = TaskCtx | Background | NoContext

record Cmd =
  Ctx :: go_context
  Path :: string
  Args :: "string list"
  Dir :: string
  Env :: "string list"
  Stdin :: string

definition exec_Command :: "string \<Rightarrow> string list \<Rightarrow> Cmd" where
  "exec_Command name arg =
     \<lparr>Ctx = NoContext, Path = name, Args = name # arg, Dir = [], Env = [], Stdin = []\<rparr>"

definition exec_CommandContext :: "go_context \<Rightarrow> string \<Rightarrow> string list \<Rightarrow> Cmd" where
  "exec_CommandContext ctx name arg =
     \<lparr>Ctx = ctx, Path = name, Args = name # arg, Dir = [], Env = [], Stdin = []\<rparr>"

text \<open>
  What one run of a process gives back: the value of \<open>cmd.Run()\<close>, the bytes written to
  standard output, and standard output and standard error as they reach a shared log
  writer.
\<close>

record ProcResult =
  exitErr :: "error option"
  stdout :: string
  logged :: string

datatype phase = SetupPhase | AgentPhase | VerifierPhase | CleanupPhase

text \<open>
  Everything \<open>evaluateTask\<close> and \<open>loadTasks\<close> ask of libraries, the file system, the
  cluster provider and child processes is a field of the world. Each process of one
  evaluation runs at most once, so its outcome is indexed by its phase. \<open>ctxErr\<close> is
  the value of \<open>taskCtx.Err()\<close> read after a failed agent run. A duration is a
  number of nanoseconds.
\<close>

record DirEntry =
  Name :: string
  IsDir :: bool

record World =
  ParseDuration :: "string \<Rightarrow> error + int"
  DurationString :: "int \<Rightarrow> string"
  filepath_Join :: "string list \<Rightarrow> string"
  filepath_Abs :: "string \<Rightarrow> error + string"
  regexp_Compile :: "string \<Rightarrow> error + (string \<Rightarrow> bool)"
  fmtQ :: "string \<Rightarrow> string"
  ReadDir :: "string \<Rightarrow> error + DirEntry list"
  ReadFile :: "string \<Rightarrow> error + string"
  WriteFile :: "string \<Rightarrow> string \<Rightarrow> error option"
  yaml_Unmarshal :: "string \<Rightarrow> error + Task"
  ResolvePrompt :: "ScriptStep \<Rightarrow> string \<Rightarrow> error + string"
  providerCreate :: "string \<Rightarrow> error option"
  providerGetKubeconfig :: "string \<Rightarrow> error + string"
  providerDelete :: "string \<Rightarrow> error option"
  cmdRun :: "phase \<Rightarrow> Cmd \<Rightarrow> ProcResult"
  ctxErr :: ctx_error

text \<open>
  What the program does to the world, in order: a line printed to standard output or
  standard error, a sleep of so many seconds, a process run by a provider, a
  process run by the state machine in one of its phases, a call of the cluster
  provider, a file written, a file removed.
\<close>

datatype event =
    Print string
  | PrintErr string
  | Sleep nat
  | Run Cmd
  | Exec phase Cmd
  | ProviderCreate string
  | ProviderGetKubeconfig string
  | ProviderDelete string
  | FileWrite string string
  | FileRemove string

section \<open>The task execution state machine (eval.go)\<close>

text \<open>
  \<open>TaskExecution\<close>. The Go struct holds pointers to the result and the task that
  \<open>evaluateTask\<close> owns; here the record holds them, and \<open>evaluateTask\<close> reads and
  writes them through the record. \<open>log_writer\<close> is the field \<open>log\<close>: \<open>None\<close> for a
  nil writer, otherwise the text written so far (in \<open>evaluateTask\<close> the writer feeds
  \<open>logBuffer\<close>, and a log file that receives the same bytes). A cleanup function is
  kept as the action its closure performs. \<open>effects\<close> is not a field of the struct: it
  records what has been done to the world so far.
\<close>

datatype teardown = DeleteCluster string

record TaskExecution =
  kubeConfig :: string
  AgentBin :: string
  llmConfig :: LLMConfig
  result :: TaskResult
  log_writer :: "string option"
  task :: Task
  taskID :: string
  taskDir :: string
  taskOutputDir :: string
  cleanupFunctions :: "teardown list"
  effects :: "event list"

definition emit :: "event list \<Rightarrow> TaskExecution \<Rightarrow> TaskExecution" where
  "emit evs x = x\<lparr>effects := effects x @ evs\<rparr>"

definition write_log :: "string \<Rightarrow> TaskExecution \<Rightarrow> TaskExecution" where
  "write_log s x =
     (case log_writer x of
        None \<Rightarrow> x
      | Some buf \<Rightarrow> x\<lparr>log_writer := Some (buf @ s)\<rparr>)"

definition logBuffer :: "TaskExecution \<Rightarrow> string" where
  "logBuffer x = (case log_writer x of None \<Rightarrow> [] | Some buf \<Rightarrow> buf)"

definition kubeconfigEnv :: "TaskExecution \<Rightarrow> string list" where
  "kubeconfigEnv x = [''KUBECONFIG='' @ kubeConfig x]"

text \<open>\<open>getLastNLines\<close>: the last \<open>n\<close> lines of a string, and whether lines were cut.\<close>

definition getLastNLines :: "string \<Rightarrow> nat \<Rightarrow> string \<times> bool" where
  "getLastNLines s n =
     (let lines = splitLines s in
      if length lines > n
      then (strings_Join (drop (length lines - n) lines) NL, True)
      else (s, False))"

text \<open>\<open>runCommand\<close>.\<close>

definition runCommand :: "World \<Rightarrow> phase \<Rightarrow> Cmd \<Rightarrow> TaskExecution \<Rightarrow> error option \<times> TaskExecution" where
  "runCommand w ph cmd x =
     (let x1 = emit [Print (NL @ ''Running command: '' @ strings_Join (Args cmd) '' '' @ NL),
                     Exec ph cmd] x;
          r = cmdRun w ph cmd;
          x2 = write_log (logged r) x1
      in case exitErr r of
           Some err \<Rightarrow>
             (Some (Wrap (''running command '' @ strings_Join (Args cmd) '' '' @ '': '') err), x2)
         | None \<Rightarrow> (None, x2))"

text \<open>\<open>runSetup\<close>: its second half, the setup script, first.\<close>

definition setupCmd :: "World \<Rightarrow> go_context \<Rightarrow> TaskExecution \<Rightarrow> Cmd" where
  "setupCmd w ctx x =
     (let setupPath = filepath_Join w [taskDir x, Setup (task x)]
      in (exec_CommandContext ctx setupPath [])\<lparr>Dir := taskDir x, Env := kubeconfigEnv x\<rparr>)"

definition runSetup_script :: "World \<Rightarrow> go_context \<Rightarrow> TaskExecution \<Rightarrow> error option \<times> TaskExecution" where
  "runSetup_script w ctx x =
     (if Setup (task x) \<noteq> [] then runCommand w SetupPhase (setupCmd w ctx x) x
      else (None, x))"

definition runSetup :: "World \<Rightarrow> go_context \<Rightarrow> TaskExecution \<Rightarrow> error option \<times> TaskExecution" where
  "runSetup w ctx x =
     (if Isolation (task x) = IsolationModeCluster then
        (let kubeconfigPath = filepath_Join w [taskDir x, ''kubeconfig.yaml''];
             x1 = x\<lparr>kubeConfig := kubeconfigPath\<rparr>;
             clusterName = ''k8s-ai-bench-'' @ taskID x1;
             x2 = emit [ProviderCreate clusterName] x1
         in case providerCreate w clusterName of
              Some err \<Rightarrow>
                (Some (Wrap (''failed to create isolated cluster '' @ fmtQ w clusterName @ '': '') err), x2)
            | None \<Rightarrow>
                (let x3 = x2\<lparr>cleanupFunctions := cleanupFunctions x2 @ [DeleteCluster clusterName]\<rparr>;
                     x4 = emit [ProviderGetKubeconfig clusterName] x3
                 in case providerGetKubeconfig w clusterName of
                      Inl err \<Rightarrow>
                        (Some (Wrap (''failed to get kubeconfig for isolated cluster ''
                                       @ fmtQ w clusterName @ '': '') err), x4)
                    | Inr kubeconfigBytes \<Rightarrow>
                        (let x5 = emit [FileWrite kubeconfigPath kubeconfigBytes] x4
                         in case WriteFile w kubeconfigPath kubeconfigBytes of
                              Some err \<Rightarrow>
                                (Some (Wrap (''failed to write kubeconfig for isolated cluster ''
                                               @ fmtQ w clusterName @ '': '') err), x5)
                            | None \<Rightarrow> runSetup_script w ctx x5)))
      else runSetup_script w ctx x)"

text \<open>\<open>runCleanup\<close>: the cleanup script, then the loop over \<open>x.cleanupFunctions\<close>.\<close>

fun callCleanup :: "World \<Rightarrow> teardown \<Rightarrow> error option" where
  "callCleanup w (DeleteCluster clusterName) = providerDelete w clusterName"

fun cleanupEvent :: "teardown \<Rightarrow> event" where
  "cleanupEvent (DeleteCluster clusterName) = ProviderDelete clusterName"

fun runCleanup_loop :: "World \<Rightarrow> teardown list \<Rightarrow> error list \<Rightarrow> TaskExecution \<Rightarrow> error list \<times> TaskExecution" where
  "runCleanup_loop w [] errs x = (errs, x)"
| "runCleanup_loop w (cleanup # rest) errs x =
     (let x' = emit [cleanupEvent cleanup] x
      in case callCleanup w cleanup of
           Some err \<Rightarrow> runCleanup_loop w rest (errs @ [err]) x'
         | None \<Rightarrow> runCleanup_loop w rest errs x')"

definition cleanupCmd :: "World \<Rightarrow> go_context \<Rightarrow> TaskExecution \<Rightarrow> Cmd" where
  "cleanupCmd w ctx x =
     (let cleanupPath = filepath_Join w [taskDir x, Cleanup (task x)]
      in (exec_CommandContext ctx cleanupPath [])\<lparr>Dir := taskDir x, Env := kubeconfigEnv x\<rparr>)"

definition runCleanup_script :: "World \<Rightarrow> go_context \<Rightarrow> TaskExecution \<Rightarrow> TaskExecution" where
  "runCleanup_script w ctx x =
     (if Cleanup (task x) \<noteq> [] then
        (case runCommand w CleanupPhase (cleanupCmd w ctx x) x of
              (Some err, x') \<Rightarrow>
                emit [Print (''Warning: cleanup failed for task '' @ taskID x' @ '': ''
                             @ Error_msg err @ NL)] x'
            | (None, x') \<Rightarrow> x')
      else x)"

definition runCleanup :: "World \<Rightarrow> go_context \<Rightarrow> TaskExecution \<Rightarrow> error option \<times> TaskExecution" where
  "runCleanup w ctx x =
     (let x1 = runCleanup_script w ctx x;
          (errs, x2) = runCleanup_loop w (cleanupFunctions x1) [] x1
      in (errors_Join errs, x2))"

text \<open>
  \<open>runAgent\<close>. The goroutine that feeds the prompts runs beside the agent process; the
  model runs it to its end before the process is waited for, so that a prompt that
  fails to resolve has recorded its Failure by the time \<open>runAgent\<close> returns.
\<close>

fun feedPrompts :: "World \<Rightarrow> ScriptStep list \<Rightarrow> string \<Rightarrow> TaskExecution \<Rightarrow> string \<times> TaskExecution" where
  "feedPrompts w [] written x = (written, x)"
| "feedPrompts w (step # rest) written x =
     (case ResolvePrompt w step (taskDir x) of
        Inl err \<Rightarrow>
          (written,
           (emit [PrintErr (''Error resolving prompt: '' @ Error_msg err @ NL)] x)
             \<lparr>result := AddFailure (''failed to resolve prompt: '' @ Error_msg err) (result x)\<rparr>)
      | Inr prompt \<Rightarrow> feedPrompts w rest (written @ prompt @ NL) x)"

definition runAgent :: "World \<Rightarrow> go_context \<Rightarrow> TaskExecution \<Rightarrow> (error + string) \<times> TaskExecution" where
  "runAgent w ctx x =
     (let tracePath = filepath_Join w [taskOutputDir x, ''trace.yaml''];
          args = [''--kubeconfig'', kubeConfig x,
                  ''--llm-provider'', ProviderID (llmConfig x),
                  ''--enable-tool-use-shim='' @ fmtBool (EnableToolUseShim (llmConfig x)),
                  ''--quiet='' @ fmtBool (Quiet (llmConfig x)),
                  ''--model'', ModelID (llmConfig x),
                  ''--trace-path'', tracePath,
                  ''--skip-permissions'',
                  ''--show-tool-output''];
          args = (if McpClient (llmConfig x) then args @ [''--mcp-client''] else args);
          (fed, x1) = feedPrompts w (Script (task x)) [] x;
          cmd = (exec_CommandContext ctx (AgentBin x1) args)
                  \<lparr>Env := kubeconfigEnv x1, Stdin := fed\<rparr>;
          x2 = emit [Exec AgentPhase cmd] x1;
          r = cmdRun w AgentPhase cmd;
          stdoutBuffer = (case log_writer x2 of None \<Rightarrow> [] | Some buf \<Rightarrow> stdout r);
          x3 = write_log (logged r) x2
      in case exitErr r of
           Some err \<Rightarrow> (Inl err, x3)
         | None \<Rightarrow> (Inr stdoutBuffer, x3))"

text \<open>
  What the feeder leaves on the result: the Failure of the first prompt that does not
  resolve, if there is one.
\<close>

fun promptFailure :: "World \<Rightarrow> ScriptStep list \<Rightarrow> string \<Rightarrow> Failure list" where
  "promptFailure w [] dir = []"
| "promptFailure w (step # rest) dir =
     (case ResolvePrompt w step dir of
        Inl err \<Rightarrow> [\<lparr>Message = ''failed to resolve prompt: '' @ Error_msg err\<rparr>]
      | Inr prompt \<Rightarrow> promptFailure w rest dir)"

text \<open>
  \<open>evaluateTask\<close>, in the order of its text: the timeout, the execution record, the
  body between the deferred cleanup and each \<open>return\<close>, and the function itself.
  The segment of the agent's output that the expectations are matched against:
\<close>

definition lastCmdOutput :: "string \<Rightarrow> string" where
  "lastCmdOutput agentOutput =
     (let lastToolRunIndex = strings_LastIndex agentOutput ''Running:'' in
      if lastToolRunIndex = - 1 then agentOutput
      else (let remaining = drop (nat lastToolRunIndex) agentOutput;
                newlineIndex = strings_Index remaining NL
            in if newlineIndex \<noteq> - 1 then drop (nat (newlineIndex + 1)) remaining else []))"

fun checkExpectations :: "World \<Rightarrow> Expectation list \<Rightarrow> string \<Rightarrow> Failure list \<Rightarrow> Failure list" where
  "checkExpectations w [] out expectationFailures = expectationFailures"
| "checkExpectations w (expect # rest) out expectationFailures =
     (if Contains expect \<noteq> [] then
        (case regexp_Compile w (Contains expect) of
           Inl err \<Rightarrow>
             checkExpectations w rest out
               (expectationFailures @
                  [\<lparr>Message = ''invalid regex '' @ fmtQ w (Contains expect)
                                @ '' in task spec: '' @ Error_msg err\<rparr>])
         | Inr re \<Rightarrow>
             (if \<not> re out then
                checkExpectations w rest out
                  (expectationFailures @
                     [\<lparr>Message = ''regex '' @ fmtQ w (Contains expect)
                                   @ '' did not match output '' @ fmtQ w out\<rparr>])
              else checkExpectations w rest out expectationFailures))
      else checkExpectations w rest out expectationFailures)"

definition emptyResult :: "string \<Rightarrow> LLMConfig \<Rightarrow> TaskResult" where
  "emptyResult tid llm = \<lparr>Task = tid, LLMConfig = llm, Result = [], Error = [], Failures = []\<rparr>"

definition taskTimeout :: "World \<Rightarrow> Task \<Rightarrow> error + int" where
  "taskTimeout w t =
     (if Timeout t \<noteq> [] then ParseDuration w (Timeout t)
      else Inr (10 * 60 * 1000000000))"

definition newTaskExecution :: "World \<Rightarrow> EvalConfig \<Rightarrow> string \<Rightarrow> Task \<Rightarrow> LLMConfig \<Rightarrow> TaskResult \<Rightarrow> TaskExecution" where
  "newTaskExecution w config tid t llm res =
     (let x = \<lparr>kubeConfig = KubeConfig config,
                AgentBin = ConfigAgentBin config,
                llmConfig = llm,
                result = res,
                log_writer = Some [],
                task = t,
                taskID = tid,
                taskDir = [],
                taskOutputDir = filepath_Join w [OutputDir config, tid],
                cleanupFunctions = [],
                effects = []\<rparr>
      in if ClusterProvider config = ''vcluster''
         then x\<lparr>task := (task x)\<lparr>Isolation := IsolationModeCluster\<rparr>\<rparr>
         else x)"

definition logExcerpt :: "TaskExecution \<Rightarrow> nat \<Rightarrow> string" where
  "logExcerpt x maxLines =
     (let logString = logBuffer x;
          (logTail, truncated) = getLastNLines logString maxLines;
          logPath = taskOutputDir x
      in NL @ ''---LOG---'' @ NL @ logTail
         @ (if truncated
            then NL @ ''... (log truncated, full log at '' @ logPath @ '')''
            else []))"

definition verifierCmd :: "World \<Rightarrow> TaskExecution \<Rightarrow> Cmd" where
  "verifierCmd w x =
     (exec_CommandContext TaskCtx (filepath_Join w [taskDir x, Verifier (task x)]) [])
       \<lparr>Env := kubeconfigEnv x\<rparr>"

definition evaluateTask_verify :: "World \<Rightarrow> string \<Rightarrow> TaskExecution \<Rightarrow> TaskResult \<times> TaskExecution" where
  "evaluateTask_verify w agentOutput x =
     (let expectationFailures =
            (if length (Expect (task x)) > 0
             then checkExpectations w (Expect (task x)) (lastCmdOutput agentOutput) []
             else []);
          x1 = (if length (Expect (task x)) > 0 \<and> length expectationFailures = 0
                then emit [Print (NL @ ''All output expectations met'' @ NL)] x else x);
          (verifierSucceeded, x2) =
            (if Verifier (task x1) \<noteq> [] then
               (case runCommand w VerifierPhase (verifierCmd w x1)
                       (emit [Print (NL @ ''Running verifier for task '' @ taskID x1 @ NL)] x1) of
                  (None, x') \<Rightarrow> (True, x')
                | (Some err, x') \<Rightarrow>
                    (False,
                     x'\<lparr>result := AddFailure (''verifier script failed: '' @ Error_msg err
                                               @ logExcerpt x' 20) (result x')\<rparr>))
             else (False, x1));
          expectationsMet = (length (Expect (task x2)) > 0 \<and> length expectationFailures = 0);
          x3 = (if verifierSucceeded \<or> expectationsMet
                then x2\<lparr>result := (result x2)\<lparr>Result := ''success''\<rparr>\<rparr>
                else x2\<lparr>result := (result x2)\<lparr>Result := ''fail'',
                                                 Failures := Failures (result x2) @ expectationFailures\<rparr>\<rparr>)
      in (result x3, x3))"

definition evaluateTask_body :: "World \<Rightarrow> int \<Rightarrow> TaskExecution \<Rightarrow> TaskResult \<times> TaskExecution" where
  "evaluateTask_body w timeout x =
     (case runSetup w TaskCtx x of
        (Some err, x1) \<Rightarrow>
          (let x2 = x1\<lparr>result := (result x1)\<lparr>Error := Error_msg err\<rparr>\<rparr>
           in (result x2, x2))
      | (None, x1) \<Rightarrow>
          (case runAgent w TaskCtx x1 of
             (Inl err, x2) \<Rightarrow>
               (if ctxErr w = DeadlineExceeded then
                  (let x3 = x2\<lparr>result := (result x2)\<lparr>Result := ''fail''\<rparr>\<rparr>;
                       x4 = x3\<lparr>result := AddFailure (''task timed out after ''
                                                        @ DurationString w timeout) (result x3)\<rparr>
                   in (result x4, x4))
                else
                  (let x3 = x2\<lparr>result := (result x2)\<lparr>Result := ''error''\<rparr>\<rparr>;
                       errorMessage = ''agent encountered error: '' @ Error_msg err @ logExcerpt x3 3;
                       x4 = x3\<lparr>result := (result x3)\<lparr>Error := errorMessage\<rparr>\<rparr>
                   in (result x4, x4)))
           | (Inr agentOutput, x2) \<Rightarrow> evaluateTask_verify w agentOutput x2))"

definition evaluateTask :: "World \<Rightarrow> EvalConfig \<Rightarrow> string \<Rightarrow> Task \<Rightarrow> LLMConfig \<Rightarrow> TaskResult \<times> event list" where
  "evaluateTask w config tid t llm =
     (let res = emptyResult tid llm
      in case taskTimeout w t of
           Inl err \<Rightarrow>
             (res\<lparr>Result := ''fail'', Error := ''parsing timeout: '' @ Error_msg err\<rparr>, [])
         | Inr timeout \<Rightarrow>
             (let x = newTaskExecution w config tid t llm res;
                  tdir = filepath_Join w [TasksDir config, tid]
              in case filepath_Abs w tdir of
                   Inl err \<Rightarrow> (res\<lparr>Result := ''fail'', Error := Error_msg err\<rparr>, [])
                 | Inr taskDirAbs \<Rightarrow>
                     (let x1 = x\<lparr>taskDir := taskDirAbs\<rparr>;
                          (returned, x2) = evaluateTask_body w timeout x1;
                          (cleanupErr, x3) = runCleanup w Background x2;
                          x4 = (case cleanupErr of
                                  Some err \<Rightarrow>
                                    emit [Print (''Warning: cleanup failed for task '' @ tid @ '': ''
                                                 @ Error_msg err @ NL)] x3
                                | None \<Rightarrow> x3)
                      in (returned, effects x4))))"

text \<open>
  A pattern matches a text when it compiles and the compiled expression matches
  (\<open>regexp.Compile\<close>, then \<open>MatchString\<close>).
\<close>

definition patternMatches :: "World \<Rightarrow> string \<Rightarrow> string \<Rightarrow> bool" where
  "patternMatches w pattern out =
     (case regexp_Compile w pattern of Inl err \<Rightarrow> False | Inr re \<Rightarrow> re out)"

section \<open>The task repository (eval.go)\<close>

text \<open>
  \<open>loadTasks\<close>: the optional filter, the reading and parsing of one task file (the
  body of the loop from \<open>taskFile\<close> on), the loop over the directory entries, and
  the function. The result is the error or the mapping; the line printed for a
  disabled task is left out.
\<close>

definition taskFilter :: "World \<Rightarrow> EvalConfig \<Rightarrow> error + (string \<Rightarrow> bool) option" where
  "taskFilter w config =
     (if TaskPattern config \<noteq> [] then
        (case regexp_Compile w (TaskPattern config) of
           Inl err \<Rightarrow>
             Inl (Wrap (''compiling task pattern regex '' @ fmtQ w (TaskPattern config) @ '': '') err)
         | Inr re \<Rightarrow> Inr (Some re))
      else Inr None)"

definition taskFilePath :: "World \<Rightarrow> EvalConfig \<Rightarrow> string \<Rightarrow> string" where
  "taskFilePath w config tid = filepath_Join w [TasksDir config, tid, ''task.yaml'']"

definition readTask :: "World \<Rightarrow> EvalConfig \<Rightarrow> string \<Rightarrow> error + Task" where
  "readTask w config tid =
     (let taskFile = taskFilePath w config tid
      in case ReadFile w taskFile of
           Inl err \<Rightarrow> Inl (Wrap (''failed to read task file '' @ taskFile @ '': '') err)
         | Inr data \<Rightarrow>
             (case yaml_Unmarshal w data of
                Inl err \<Rightarrow> Inl (Wrap (''failed to parse task file '' @ taskFile @ '': '') err)
              | Inr t \<Rightarrow> Inr t))"

fun loadTasks_loop :: "World \<Rightarrow> EvalConfig \<Rightarrow> (string \<Rightarrow> bool) option \<Rightarrow> DirEntry list \<Rightarrow> (string \<rightharpoonup> Task) \<Rightarrow> error + (string \<rightharpoonup> Task)" where
  "loadTasks_loop w config flt [] tasks = Inr tasks"
| "loadTasks_loop w config flt (entry # entries) tasks =
     (if \<not> IsDir entry then loadTasks_loop w config flt entries tasks
      else if (case flt of None \<Rightarrow> False | Some re \<Rightarrow> \<not> re (Name entry))
      then loadTasks_loop w config flt entries tasks
      else (case readTask w config (Name entry) of
              Inl err \<Rightarrow> Inl err
            | Inr t \<Rightarrow>
                if Disabled t then loadTasks_loop w config flt entries tasks
                else loadTasks_loop w config flt entries (tasks(Name entry \<mapsto> t))))"

definition loadTasks :: "World \<Rightarrow> EvalConfig \<Rightarrow> error + (string \<rightharpoonup> Task)" where
  "loadTasks w config =
     (case taskFilter w config of
        Inl err \<Rightarrow> Inl err
      | Inr flt \<Rightarrow>
          (case ReadDir w (TasksDir config) of
             Inl err \<Rightarrow> Inl err
           | Inr entries \<Rightarrow> loadTasks_loop w config flt entries Map.empty))"

text \<open>
  The entries whose task file \<open>loadTasks\<close> reads: the directories whose name the
  filter, if there is one, matches.
\<close>

definition considered :: "(string \<Rightarrow> bool) option \<Rightarrow> DirEntry \<Rightarrow> bool" where
  "considered flt entry =
     (IsDir entry \<and> (case flt of None \<Rightarrow> True | Some re \<Rightarrow> re (Name entry)))"

text \<open>
  The entries that end up in the mapping: those considered whose task file reads,
  parses and is not marked disabled.
\<close>

definition loadable :: "World \<Rightarrow> EvalConfig \<Rightarrow> (string \<Rightarrow> bool) option \<Rightarrow> DirEntry \<Rightarrow> bool" where
  "loadable w config flt entry =
     (considered flt entry
      \<and> (case readTask w config (Name entry) of Inl err \<Rightarrow> False | Inr t \<Rightarrow> \<not> Disabled t))"

section \<open>Environment providers: Create (package kind, package vcluster)\<close>

text \<open>
  \<open>fmt.Errorf(prefix + "%w", err)\<close> for an error variable that may be nil.
\<close>

definition Errorf_w :: "string \<Rightarrow> error option \<Rightarrow> error" where
  "Errorf_w prefix err =
     (case err of Some e \<Rightarrow> Wrap prefix e | None \<Rightarrow> Cause (prefix @ ''%!w(<nil>)''))"

text \<open>
  \<open>Create\<close> of the kind provider. The loop \<open>for retry := range 3\<close> is a recursion
  over \<open>[0, 1, 2]\<close>; \<open>run retry cmd\<close> is what \<open>createCmd.Run()\<close> returns in
  iteration \<open>retry\<close>, and \<open>q\<close> is the verb \<open>%q\<close>. \<open>time.Sleep(5 * time.Second)\<close> is
  the event \<open>Sleep 5\<close>.
\<close>

definition kind_createCmd :: "string \<Rightarrow> Cmd" where
  "kind_createCmd name =
     exec_Command ''kind'' [''create'', ''cluster'', ''--name'', name, ''--wait'', ''5m'']"

fun kind_Create_loop :: "(string \<Rightarrow> string) \<Rightarrow> (nat \<Rightarrow> Cmd \<Rightarrow> error option) \<Rightarrow> string \<Rightarrow> nat list \<Rightarrow> error option \<Rightarrow> event list \<Rightarrow> error option \<times> event list" where
  "kind_Create_loop q run name [] createErr evs =
     (Some (Errorf_w ''failed to create kind cluster after multiple retries: '' createErr), evs)"
| "kind_Create_loop q run name (retry # rest) createErr evs =
     (let evs1 = (if retry > 0
                  then evs @ [Print (''Retrying cluster creation, attempt '' @ fmtNat (retry + 1) @ NL),
                              Sleep 5]
                  else evs);
          createCmd = kind_createCmd name;
          evs2 = evs1 @ [Print (''Creating kind cluster '' @ q name @ NL), Run createCmd]
      in case run retry createCmd of
           None \<Rightarrow> (None, evs2)
         | Some err \<Rightarrow>
             kind_Create_loop q run name rest (Some err)
               (evs2 @ [Print (''failed to create kind cluster, retrying...: '' @ Error_msg err @ NL)]))"

definition kind_Create :: "(string \<Rightarrow> string) \<Rightarrow> (nat \<Rightarrow> Cmd \<Rightarrow> error option) \<Rightarrow> string \<Rightarrow> error option \<times> event list" where
  "kind_Create q run name = kind_Create_loop q run name [0..<3] None []"

text \<open>
  vcluster.go holds three versions of package vcluster, one after the other. Their
  \<open>Provider\<close> structs differ in the fields they have beside \<open>HostContext\<close>; one
  record holds the fields of all three, and each \<open>Create\<close> reads those of its own
  version. First \<open>Create\<close> of the provider that keeps a values file (the second
  version).
\<close>

record vcluster_Provider =
  HostContext :: string
  HostKubeConfig :: string
  ValuesPath :: string
  IngressExternalIP :: string

definition vcluster_createCmd :: "vcluster_Provider \<Rightarrow> string \<Rightarrow> Cmd" where
  "vcluster_createCmd p name =
     (let args = [''create'', name, ''--connect=false'', ''--values'', ValuesPath p];
          args = (if HostContext p \<noteq> [] then args @ [''--context'', HostContext p] else args)
      in (exec_Command ''vcluster'' args)\<lparr>Env := [''KUBECONFIG='' @ HostKubeConfig p]\<rparr>)"

fun vcluster_Create_loop :: "(string \<Rightarrow> string) \<Rightarrow> (nat \<Rightarrow> Cmd \<Rightarrow> error option) \<Rightarrow> vcluster_Provider \<Rightarrow> string \<Rightarrow> nat list \<Rightarrow> error option \<Rightarrow> event list \<Rightarrow> error option \<times> event list" where
  "vcluster_Create_loop q run p name [] createErr evs =
     (Some (Errorf_w ''failed to create vcluster after multiple retries: '' createErr), evs)"
| "vcluster_Create_loop q run p name (retry # rest) createErr evs =
     (let evs1 = (if retry > 0
                  then evs @ [Print (''Retrying vcluster creation, attempt '' @ fmtNat (retry + 1) @ NL),
                              Sleep 5]
                  else evs);
          createCmd = vcluster_createCmd p name;
          evs2 = evs1 @ [Print (''Creating vcluster '' @ q name @ NL), Run createCmd]
      in case run retry createCmd of
           None \<Rightarrow> (None, evs2)
         | Some err \<Rightarrow>
             vcluster_Create_loop q run p name rest (Some err)
               (evs2 @ [Print (''failed to create vcluster, retrying...: '' @ Error_msg err @ NL)]))"

definition vcluster_Create :: "(string \<Rightarrow> string) \<Rightarrow> (nat \<Rightarrow> Cmd \<Rightarrow> error option) \<Rightarrow> vcluster_Provider \<Rightarrow> string \<Rightarrow> error option \<times> event list" where
  "vcluster_Create q run p name = vcluster_Create_loop q run p name [0..<3] None []"

text \<open>
  \<open>Create\<close> of the provider that has only a host context (the third version): the
  same loop, with a command that has no values file and no environment of its own.
\<close>

definition vcluster_createCmd_plain :: "vcluster_Provider \<Rightarrow> string \<Rightarrow> Cmd" where
  "vcluster_createCmd_plain p name =
     (let args = [''create'', name, ''--connect=false''];
          args = (if HostContext p \<noteq> [] then args @ [''--context'', HostContext p] else args)
      in exec_Command ''vcluster'' args)"

fun vcluster_Create_plain_loop :: "(string \<Rightarrow> string) \<Rightarrow> (nat \<Rightarrow> Cmd \<Rightarrow> error option) \<Rightarrow> vcluster_Provider \<Rightarrow> string \<Rightarrow> nat list \<Rightarrow> error option \<Rightarrow> event list \<Rightarrow> error option \<times> event list" where
  "vcluster_Create_plain_loop q run p name [] createErr evs =
     (Some (Errorf_w ''failed to create vcluster after multiple retries: '' createErr), evs)"
| "vcluster_Create_plain_loop q run p name (retry # rest) createErr evs =
     (let evs1 = (if retry > 0
                  then evs @ [Print (''Retrying vcluster creation, attempt '' @ fmtNat (retry + 1) @ NL),
                              Sleep 5]
                  else evs);
          createCmd = vcluster_createCmd_plain p name;
          evs2 = evs1 @ [Print (''Creating vcluster '' @ q name @ NL), Run createCmd]
      in case run retry createCmd of
           None \<Rightarrow> (None, evs2)
         | Some err \<Rightarrow>
             vcluster_Create_plain_loop q run p name rest (Some err)
               (evs2 @ [Print (''failed to create vcluster, retrying...: '' @ Error_msg err @ NL)]))"

definition vcluster_Create_plain :: "(string \<Rightarrow> string) \<Rightarrow> (nat \<Rightarrow> Cmd \<Rightarrow> error option) \<Rightarrow> vcluster_Provider \<Rightarrow> string \<Rightarrow> error option \<times> event list" where
  "vcluster_Create_plain q run p name = vcluster_Create_plain_loop q run p name [0..<3] None []"

text \<open>
  \<open>Create\<close> of the provider with ingress (the first version). Its helpers
  \<open>prepareEnv\<close> and \<open>createValuesFile\<close> are taken by what they return for the
  name (the \<open>kubectl\<close> processes of \<open>prepareEnv\<close> are not in the trace); the
  deferred \<open>os.Remove\<close> of the values file runs at the return after it. The
  command is run once, in what would be iteration 0, and its error is returned
  as it is.
\<close>

definition vcluster_createCmd_ingress :: "vcluster_Provider \<Rightarrow> string \<Rightarrow> string \<Rightarrow> Cmd" where
  "vcluster_createCmd_ingress p name valuesFile =
     (let args = [''create'', name, ''--connect=false'', ''--context'', HostContext p,
                  ''--values'', valuesFile]
      in (exec_Command ''vcluster'' args)\<lparr>Env := [''KUBECONFIG='' @ HostKubeConfig p]\<rparr>)"

definition vcluster_Create_ingress :: "(string \<Rightarrow> string) \<Rightarrow> (string \<Rightarrow> error option) \<Rightarrow> (string \<Rightarrow> error + string) \<Rightarrow> (nat \<Rightarrow> Cmd \<Rightarrow> error option) \<Rightarrow> vcluster_Provider \<Rightarrow> string \<Rightarrow> error option \<times> event list" where
  "vcluster_Create_ingress q prepareEnv createValuesFile run p name =
     (case prepareEnv name of
        Some err \<Rightarrow> (Some (Wrap ''failed to prepare env: '' err), [])
      | None \<Rightarrow>
          (case createValuesFile name of
             Inl err \<Rightarrow> (Some (Wrap ''failed to create values file: '' err), [])
           | Inr valuesFile \<Rightarrow>
               (let createCmd = vcluster_createCmd_ingress p name valuesFile;
                    evs = [Print (''Creating vcluster '' @ q name @ NL), Run createCmd]
                in (run 0 createCmd, evs @ [FileRemove valuesFile]))))"

text \<open>
  The processes run and the sleeps of a trace, and the trace without the lines
  printed.
\<close>

fun invocations :: "event list \<Rightarrow> Cmd list" where
  "invocations [] = []"
| "invocations (Run cmd # evs) = cmd # invocations evs"
| "invocations (ev # evs) = invocations evs"

fun delays :: "event list \<Rightarrow> nat list" where
  "delays [] = []"
| "delays (Sleep secs # evs) = secs # delays evs"
| "delays (ev # evs) = delays evs"

fun timeline :: "event list \<Rightarrow> event list" where
  "timeline [] = []"
| "timeline (Print line # evs) = timeline evs"
| "timeline (ev # evs) = ev # timeline evs"

text \<open>
  What is asked of a \<open>Create\<close> with result \<open>r\<close> (the error and the trace) that runs
  the command \<open>c\<close>, whose run number \<open>i\<close> gives \<open>run i c\<close>: at most three runs; when
  run \<open>i\<close> is the first to succeed, nil is returned after exactly \<open>i + 1\<close> runs
  and \<open>i\<close> sleeps of five seconds, one before each retry; when all three runs fail,
  the error returned wraps the last one under the message \<open>msg\<close>.
\<close>

definition retryContract :: "Cmd \<Rightarrow> (nat \<Rightarrow> Cmd \<Rightarrow> error option) \<Rightarrow> string \<Rightarrow> error option \<times> event list \<Rightarrow> bool" where
  "retryContract c run msg r \<longleftrightarrow>
     length (invocations (snd r)) \<le> 3
   \<and> (\<forall>i < 3. (\<forall>j < i. run j c \<noteq> None) \<and> run i c = None \<longrightarrow>
          fst r = None
        \<and> timeline (snd r) = take (2 * i + 1) [Run c, Sleep 5, Run c, Sleep 5, Run c]
        \<and> invocations (snd r) = replicate (i + 1) c
        \<and> delays (snd r) = replicate i 5)
   \<and> (\<forall>e. (\<forall>j < 3. run j c \<noteq> None) \<and> run 2 c = Some e \<longrightarrow>
          fst r = Some (Wrap msg e)
        \<and> timeline (snd r) = [Run c, Sleep 5, Run c, Sleep 5, Run c]
        \<and> invocations (snd r) = replicate 3 c
        \<and> delays (snd r) = replicate 2 5)"

section \<open>Sample worlds and inputs\<close>

text \<open>
  A small world to run the definitions in: paths are joined with a slash, a pattern
  is read literally (it matches the texts that contain it), every process and every
  call of the provider succeeds, and the agent prints one command and its output.
\<close>

definition sampleTask :: Task where
  "sampleTask =
     \<lparr>Setup = ''setup.sh'', Verifier = [], Cleanup = ''cleanup.sh'',
      Expect = [\<lparr>Contains = ''to 3''\<rparr>], Script = [''scale the deployment to 3 replicas''],
      Timeout = ''1s'', Isolation = [], Disabled = False\<rparr>"

definition sampleLLM :: LLMConfig where
  "sampleLLM =
     \<lparr>ID = ''m1'', ProviderID = ''gemini'', ModelID = ''pro'',
      EnableToolUseShim = False, Quiet = True, McpClient = False\<rparr>"

definition sampleConfig :: EvalConfig where
  "sampleConfig =
     \<lparr>ConfigAgentBin = ''kubectl-ai'', KubeConfig = ''kc'', OutputDir = ''out'',
      TasksDir = ''tasks'', TaskPattern = [], ClusterProvider = ''kind''\<rparr>"

definition okProc :: "string \<Rightarrow> ProcResult" where
  "okProc out = \<lparr>exitErr = None, stdout = out, logged = out\<rparr>"

definition failProc :: "string \<Rightarrow> ProcResult" where
  "failProc out = \<lparr>exitErr = Some (Cause ''exit status 1''), stdout = out, logged = out\<rparr>"

definition sampleRun :: "phase \<Rightarrow> Cmd \<Rightarrow> ProcResult" where
  "sampleRun ph cmd =
     (case ph of
        AgentPhase \<Rightarrow> okProc (''Running: kubectl scale'' @ NL @ ''Scaled deployment to 3 replicas'')
      | _ \<Rightarrow> okProc [])"

definition sampleWorld :: World where
  "sampleWorld =
     \<lparr>ParseDuration = (\<lambda>s. if s = ''1s'' then Inr 1000000000
                            else Inl (Cause (''time: invalid duration '' @ s))),
      DurationString = (\<lambda>d. if d = 1000000000 then ''1s'' else ''10m0s''),
      filepath_Join = (\<lambda>elems. strings_Join (filter (\<lambda>s. s \<noteq> []) elems) ''/''),
      filepath_Abs = (\<lambda>p. Inr (''/'' @ p)),
      regexp_Compile = (\<lambda>p. Inr (\<lambda>s. strings_Index s p \<noteq> - 1)),
      fmtQ = (\<lambda>s. [CHR 0x22] @ s @ [CHR 0x22]),
      ReadDir = (\<lambda>d. if d = ''tasks''
                      then Inr [\<lparr>Name = ''README.md'', IsDir = False\<rparr>,
                                \<lparr>Name = ''create-pod'', IsDir = True\<rparr>,
                                \<lparr>Name = ''fix-probe'', IsDir = True\<rparr>,
                                \<lparr>Name = ''scale'', IsDir = True\<rparr>]
                      else Inl (Cause ''no such file or directory'')),
      ReadFile = (\<lambda>p. if p = ''tasks/create-pod/task.yaml'' then Inr ''disabled: true''
                       else if p = ''tasks/scale/task.yaml'' then Inr ''timeout: 1s''
                       else Inl (Cause ''no such file or directory'')),
      WriteFile = (\<lambda>p data. None),
      yaml_Unmarshal = (\<lambda>data. if data = ''timeout: 1s'' then Inr sampleTask
                              else if data = ''disabled: true''
                              then Inr (sampleTask\<lparr>Disabled := True\<rparr>)
                              else Inl (Cause ''yaml: unmarshal error'')),
      ResolvePrompt = (\<lambda>step dir. Inr step),
      providerCreate = (\<lambda>name. None),
      providerGetKubeconfig = (\<lambda>name. Inr ''kubeconfig''),
      providerDelete = (\<lambda>name. None),
      cmdRun = sampleRun,
      ctxErr = NoError\<rparr>"

text \<open>The phases of the processes run, in order, and worlds in which one step fails.\<close>

fun execPhases :: "event list \<Rightarrow> phase list" where
  "execPhases [] = []"
| "execPhases (Exec ph cmd # evs) = ph # execPhases evs"
| "execPhases (ev # evs) = execPhases evs"

definition setupFailsWorld :: World where
  "setupFailsWorld =
     sampleWorld\<lparr>cmdRun := (\<lambda>ph cmd. if ph = SetupPhase then failProc ''no such namespace''
                                       else sampleRun ph cmd)\<rparr>"

definition provisionFailsWorld :: World where
  "provisionFailsWorld =
     sampleWorld\<lparr>providerCreate :=
       (\<lambda>name. Some (Wrap ''failed to create vcluster after multiple retries: ''
                          (Cause ''exit status 1'')))\<rparr>"

definition agentFailsWorld :: World where
  "agentFailsWorld =
     sampleWorld\<lparr>cmdRun := (\<lambda>ph cmd. if ph = AgentPhase
                                       then failProc (''a'' @ NL @ ''b'' @ NL @ ''c'' @ NL @ ''d'')
                                       else sampleRun ph cmd)\<rparr>"

definition timeoutWorld :: World where
  "timeoutWorld = agentFailsWorld\<lparr>ctxErr := DeadlineExceeded\<rparr>"

definition verifierFailsWorld :: World where
  "verifierFailsWorld =
     sampleWorld\<lparr>cmdRun := (\<lambda>ph cmd. if ph = VerifierPhase then failProc ''replicas: 2''
                                       else sampleRun ph cmd)\<rparr>"

text \<open>
  An execution with two cleanup functions, registered in the order \<open>a\<close>, \<open>b\<close>; the
  clusters deleted, in order; and a world in which the cleanup script and every
  deletion fail.
\<close>

definition twoTeardowns :: TaskExecution where
  "twoTeardowns =
     (newTaskExecution sampleWorld sampleConfig ''scale'' sampleTask sampleLLM
        (emptyResult ''scale'' sampleLLM))
       \<lparr>taskDir := ''/tasks/scale'',
        cleanupFunctions := [DeleteCluster ''a'', DeleteCluster ''b'']\<rparr>"

fun deletions :: "event list \<Rightarrow> string list" where
  "deletions [] = []"
| "deletions (ProviderDelete clusterName # evs) = clusterName # deletions evs"
| "deletions (ev # evs) = deletions evs"

definition cleanupFailsWorld :: World where
  "cleanupFailsWorld =
     sampleWorld\<lparr>cmdRun := (\<lambda>ph cmd. if ph = CleanupPhase then failProc ''forbidden''
                                       else sampleRun ph cmd),
                  providerDelete := (\<lambda>name. Some (Cause (''cannot delete '' @ name)))\<rparr>"

text \<open>
  The world \<open>w\<close> with other outcomes for the cleanup script and for the deletion of
  clusters, and a world in which the agent run and all cleanup fail.
\<close>

definition withCleanupOutcomes :: "World \<Rightarrow> (Cmd \<Rightarrow> ProcResult) \<Rightarrow> (string \<Rightarrow> error option) \<Rightarrow> World" where
  "withCleanupOutcomes w rc del =
     w\<lparr>cmdRun := (\<lambda>ph cmd. if ph = CleanupPhase then rc cmd else cmdRun w ph cmd),
       providerDelete := del\<rparr>"

definition agentAndCleanupFailWorld :: World where
  "agentAndCleanupFailWorld =
     withCleanupOutcomes agentFailsWorld (\<lambda>cmd. failProc ''forbidden'')
       (\<lambda>name. Some (Cause (''cannot delete '' @ name)))"

definition vclusterConfig :: EvalConfig where
  "vclusterConfig = sampleConfig\<lparr>ClusterProvider := ''vcluster''\<rparr>"

text \<open>
  Provisioning that fails twice and then succeeds, a vcluster provider, and helpers
  of its \<open>Create\<close> with ingress that succeed.
\<close>

definition failsTwice :: "nat \<Rightarrow> Cmd \<Rightarrow> error option" where
  "failsTwice i cmd = (if i < 2 then Some (Cause ''exit status 1'') else None)"

definition sampleProvider :: vcluster_Provider where
  "sampleProvider =
     \<lparr>HostContext = ''host'', HostKubeConfig = ''host.yaml'', ValuesPath = ''/tmp/values.yaml'',
      IngressExternalIP = ''10.0.0.1''\<rparr>"

definition envReady :: "string \<Rightarrow> error option" where
  "envReady name = None"

definition valuesWritten :: "string \<Rightarrow> error + string" where
  "valuesWritten name = Inr ''/tmp/vcluster-values-1.yaml''"

section \<open>What the steps of an execution leave unchanged\<close>

lemma emit_frame [simp]:
  "task (emit evs x) = task x" "result (emit evs x) = result x"
  "taskDir (emit evs x) = taskDir x" "kubeConfig (emit evs x) = kubeConfig x"
  "taskID (emit evs x) = taskID x" "taskOutputDir (emit evs x) = taskOutputDir x"
  "cleanupFunctions (emit evs x) = cleanupFunctions x" "llmConfig (emit evs x) = llmConfig x"
  "AgentBin (emit evs x) = AgentBin x" "log_writer (emit evs x) = log_writer x"
  "effects (emit evs x) = effects x @ evs"
  by (simp_all add: emit_def)

lemma write_log_frame [simp]:
  "task (write_log s x) = task x" "result (write_log s x) = result x"
  "taskDir (write_log s x) = taskDir x" "kubeConfig (write_log s x) = kubeConfig x"
  "taskID (write_log s x) = taskID x" "taskOutputDir (write_log s x) = taskOutputDir x"
  "cleanupFunctions (write_log s x) = cleanupFunctions x" "llmConfig (write_log s x) = llmConfig x"
  "AgentBin (write_log s x) = AgentBin x" "effects (write_log s x) = effects x"
  by (simp_all add: write_log_def split: option.splits)

lemma runCommand_frame [simp]:
  "task (snd (runCommand w ph c x)) = task x" "result (snd (runCommand w ph c x)) = result x"
  "taskDir (snd (runCommand w ph c x)) = taskDir x" "kubeConfig (snd (runCommand w ph c x)) = kubeConfig x"
  "taskID (snd (runCommand w ph c x)) = taskID x" "taskOutputDir (snd (runCommand w ph c x)) = taskOutputDir x"
  "cleanupFunctions (snd (runCommand w ph c x)) = cleanupFunctions x"
  "llmConfig (snd (runCommand w ph c x)) = llmConfig x"
  "AgentBin (snd (runCommand w ph c x)) = AgentBin x"
  by (simp_all add: runCommand_def Let_def split: option.splits)

lemma runSetup_script_frame [simp]:
  "task (snd (runSetup_script w ctx x)) = task x" "result (snd (runSetup_script w ctx x)) = result x"
  "taskDir (snd (runSetup_script w ctx x)) = taskDir x"
  "kubeConfig (snd (runSetup_script w ctx x)) = kubeConfig x"
  "taskID (snd (runSetup_script w ctx x)) = taskID x"
  "taskOutputDir (snd (runSetup_script w ctx x)) = taskOutputDir x"
  "cleanupFunctions (snd (runSetup_script w ctx x)) = cleanupFunctions x"
  "llmConfig (snd (runSetup_script w ctx x)) = llmConfig x"
  "AgentBin (snd (runSetup_script w ctx x)) = AgentBin x"
  by (simp_all add: runSetup_script_def Let_def)

lemma runSetup_frame [simp]:
  "task (snd (runSetup w ctx x)) = task x" "result (snd (runSetup w ctx x)) = result x"
  "taskDir (snd (runSetup w ctx x)) = taskDir x"
  "taskID (snd (runSetup w ctx x)) = taskID x"
  "taskOutputDir (snd (runSetup w ctx x)) = taskOutputDir x"
  "llmConfig (snd (runSetup w ctx x)) = llmConfig x"
  "AgentBin (snd (runSetup w ctx x)) = AgentBin x"
  by (simp_all add: runSetup_def Let_def split: option.splits sum.splits)


lemma feedPrompts_frame [simp]:
  "task (snd (feedPrompts w steps wr x)) = task x"
  "taskDir (snd (feedPrompts w steps wr x)) = taskDir x"
  "kubeConfig (snd (feedPrompts w steps wr x)) = kubeConfig x"
  "taskID (snd (feedPrompts w steps wr x)) = taskID x"
  "taskOutputDir (snd (feedPrompts w steps wr x)) = taskOutputDir x"
  "cleanupFunctions (snd (feedPrompts w steps wr x)) = cleanupFunctions x"
  "llmConfig (snd (feedPrompts w steps wr x)) = llmConfig x"
  "AgentBin (snd (feedPrompts w steps wr x)) = AgentBin x"
  "log_writer (snd (feedPrompts w steps wr x)) = log_writer x"
  by (induction steps arbitrary: wr; simp add: emit_def split: sum.splits)+

lemma runAgent_frame [simp]:
  "task (snd (runAgent w ctx x)) = task x"
  "taskDir (snd (runAgent w ctx x)) = taskDir x"
  "kubeConfig (snd (runAgent w ctx x)) = kubeConfig x"
  "taskID (snd (runAgent w ctx x)) = taskID x"
  "taskOutputDir (snd (runAgent w ctx x)) = taskOutputDir x"
  "cleanupFunctions (snd (runAgent w ctx x)) = cleanupFunctions x"
  "llmConfig (snd (runAgent w ctx x)) = llmConfig x"
  "AgentBin (snd (runAgent w ctx x)) = AgentBin x"
  by (simp_all add: runAgent_def Let_def split_beta split: option.splits)

section \<open>Expectations and the verifier\<close>

lemma checkExpectations_acc:
  "checkExpectations w es out acc = acc @ checkExpectations w es out []"
proof (induction es arbitrary: acc)
  case Nil
  show ?case by simp
next
  case (Cons e es)
  show ?case
    using Cons.IH [of "acc @ [x]" for x] Cons.IH [of "[x]" for x] Cons.IH [of acc]
    by (simp split: sum.splits)
qed

lemma checkExpectations_empty:
  "checkExpectations w es out [] = [] \<longleftrightarrow>
     (\<forall>e \<in> set es. Contains e \<noteq> [] \<longrightarrow> patternMatches w (Contains e) out)"
proof (induction es)
  case Nil
  show ?case by simp
next
  case (Cons e es)
  have step: "checkExpectations w es out [f] \<noteq> []" for f
    using checkExpectations_acc [of w es out "[f]"] by simp
  show ?case
    using Cons.IH step by (simp add: patternMatches_def split: sum.splits)
qed

lemma verifierCmd_emit [simp]: "verifierCmd w (emit evs x) = verifierCmd w x"
  by (simp add: verifierCmd_def kubeconfigEnv_def)

lemma runCommand_eq:
  "runCommand w ph c x =
     (map_option (Wrap (''running command '' @ strings_Join (Args c) '' '' @ '': ''))
        (exitErr (cmdRun w ph c)),
      write_log (logged (cmdRun w ph c))
        (emit [Print (NL @ ''Running command: '' @ strings_Join (Args c) '' '' @ NL), Exec ph c] x))"
  by (simp add: runCommand_def Let_def split: option.splits)

lemma verify_Result:
  "Result (fst (evaluateTask_verify w agentOutput x)) =
     (if (Verifier (task x) \<noteq> [] \<and> exitErr (cmdRun w VerifierPhase (verifierCmd w x)) = None)
         \<or> (Expect (task x) \<noteq> []
             \<and> checkExpectations w (Expect (task x)) (lastCmdOutput agentOutput) [] = [])
      then ''success'' else ''fail'')"
proof (cases "exitErr (cmdRun w VerifierPhase (verifierCmd w x))")
  case None
  then show ?thesis
    by (simp add: evaluateTask_verify_def Let_def split_beta runCommand_eq)
next
  case (Some err)
  then show ?thesis
    by (simp add: evaluateTask_verify_def Let_def split_beta runCommand_eq)
qed

lemma verify_Failures:
  "Result (fst (evaluateTask_verify w agentOutput x)) \<noteq> ''success'' \<Longrightarrow>
   \<exists>pre. Failures (fst (evaluateTask_verify w agentOutput x)) =
     pre @ checkExpectations w (Expect (task x)) (lastCmdOutput agentOutput) []"
proof (cases "exitErr (cmdRun w VerifierPhase (verifierCmd w x))")
  case None
  assume "Result (fst (evaluateTask_verify w agentOutput x)) \<noteq> ''success''"
  then show ?thesis using None
    by (simp add: evaluateTask_verify_def Let_def split_beta runCommand_eq split: if_splits)
next
  case (Some err)
  assume "Result (fst (evaluateTask_verify w agentOutput x)) \<noteq> ''success''"
  then show ?thesis using Some
    by (simp add: evaluateTask_verify_def Let_def split_beta runCommand_eq AddFailure_def split: if_splits)
qed

section \<open>Outcome of a task whose agent run completes\<close>

lemma evaluateTask_fst:
  assumes "taskTimeout w t = Inr timeout"
    and "filepath_Abs w (filepath_Join w [TasksDir config, tid]) = Inr dir"
  shows "fst (evaluateTask w config tid t llm) =
         fst (evaluateTask_body w timeout
                ((newTaskExecution w config tid t llm (emptyResult tid llm))\<lparr>taskDir := dir\<rparr>))"
  using assms by (simp add: evaluateTask_def Let_def split_beta)

lemma newTaskExecution_task [simp]:
  "Expect (task (newTaskExecution w config tid t llm res)) = Expect t"
  "Verifier (task (newTaskExecution w config tid t llm res)) = Verifier t"
  "Setup (task (newTaskExecution w config tid t llm res)) = Setup t"
  "Cleanup (task (newTaskExecution w config tid t llm res)) = Cleanup t"
  "Script (task (newTaskExecution w config tid t llm res)) = Script t"
  "result (newTaskExecution w config tid t llm res) = res"
  "cleanupFunctions (newTaskExecution w config tid t llm res) = []"
  "taskID (newTaskExecution w config tid t llm res) = tid"
  by (simp_all add: newTaskExecution_def Let_def)

lemma checkExpectations_length:
  "length (checkExpectations w es out []) =
     length (filter (\<lambda>e. Contains e \<noteq> [] \<and> \<not> patternMatches w (Contains e) out) es)"
proof (induction es)
  case Nil
  show ?case by simp
next
  case (Cons e es)
  have step: "length (checkExpectations w es out [f]) = Suc (length (checkExpectations w es out []))" for f
    using checkExpectations_acc [of w es out "[f]"] by simp
  show ?case
    using Cons.IH step by (simp add: patternMatches_def split: sum.splits)
qed

text \<open>
  C1: when the timeout parses, the task directory resolves, setup succeeds and the
  agent run returns its output without error, the outcome is \<open>success\<close> if and only
  if the declared verifier ran without error or at least one expectation is declared
  and every declared pattern matches the last-command output segment (an
  expectation whose pattern is empty declares none and is skipped); in every other
  such case the outcome is \<open>fail\<close> and the Failures of the result end with the
  expectation Failures, all of them: one for each declared pattern that does not
  match.
\<close>

theorem evaluateTask_success_iff:
  assumes timeout: "taskTimeout w t = Inr timeout"
    and abs: "filepath_Abs w (filepath_Join w [TasksDir config, tid]) = Inr dir"
    and setup_ok: "runSetup w TaskCtx
                  ((newTaskExecution w config tid t llm (emptyResult tid llm))\<lparr>taskDir := dir\<rparr>)
                = (None, x1)"
    and agent_ok: "runAgent w TaskCtx x1 = (Inr agentOutput, x2)"
  shows "(Result (fst (evaluateTask w config tid t llm)) = ''success'' \<longleftrightarrow>
            (Verifier t \<noteq> [] \<and> exitErr (cmdRun w VerifierPhase (verifierCmd w x2)) = None)
          \<or> (Expect t \<noteq> []
              \<and> (\<forall>e \<in> set (Expect t).
                    Contains e \<noteq> [] \<longrightarrow>
                    patternMatches w (Contains e) (lastCmdOutput agentOutput))))
       \<and> (Result (fst (evaluateTask w config tid t llm)) \<noteq> ''success'' \<longrightarrow>
            Result (fst (evaluateTask w config tid t llm)) = ''fail''
          \<and> (\<exists>pre. Failures (fst (evaluateTask w config tid t llm)) =
                 pre @ checkExpectations w (Expect t) (lastCmdOutput agentOutput) []))
       \<and> length (checkExpectations w (Expect t) (lastCmdOutput agentOutput) []) =
           length (filter (\<lambda>e. Contains e \<noteq> []
                                \<and> \<not> patternMatches w (Contains e) (lastCmdOutput agentOutput))
                     (Expect t))"
proof -
  let ?x0 = "(newTaskExecution w config tid t llm (emptyResult tid llm))\<lparr>taskDir := dir\<rparr>"
  have x1: "x1 = snd (runSetup w TaskCtx ?x0)" using setup_ok by simp
  have x2: "x2 = snd (runAgent w TaskCtx x1)" using agent_ok by simp
  have task2: "Expect (task x2) = Expect t" "Verifier (task x2) = Verifier t"
    by (simp_all add: x1 x2)
  have ret: "fst (evaluateTask w config tid t llm) = fst (evaluateTask_verify w agentOutput x2)"
    using evaluateTask_fst [OF timeout abs, of llm] setup_ok agent_ok
    by (simp add: evaluateTask_body_def)
  show ?thesis
    unfolding ret
    using verify_Result [of w agentOutput x2] verify_Failures [of w agentOutput x2]
    by (simp add: task2 checkExpectations_empty checkExpectations_length split: if_splits)
qed


lemmas model_defs =
  evaluateTask_def evaluateTask_body_def evaluateTask_verify_def newTaskExecution_def
  emptyResult_def taskTimeout_def runSetup_def runSetup_script_def runAgent_def
  runCleanup_def runCleanup_script_def runCommand_def verifierCmd_def setupCmd_def
  cleanupCmd_def logExcerpt_def
  getLastNLines_def lastCmdOutput_def patternMatches_def AddFailure_def emit_def
  write_log_def logBuffer_def kubeconfigEnv_def exec_CommandContext_def errors_Join_def
  fmtBool_def IsolationModeCluster_def Let_def split_beta

lemmas sample_defs =
  sampleWorld_def sampleTask_def sampleLLM_def sampleConfig_def sampleRun_def okProc_def
  failProc_def setupFailsWorld_def provisionFailsWorld_def agentFailsWorld_def
  timeoutWorld_def verifierFailsWorld_def cleanupFailsWorld_def twoTeardowns_def
  agentAndCleanupFailWorld_def vclusterConfig_def

theorem evaluateTask_success_iff_witness:
  "taskTimeout sampleWorld sampleTask = Inr 1000000000
   \<and> filepath_Abs sampleWorld (filepath_Join sampleWorld [TasksDir sampleConfig, ''scale''])
       = Inr ''/tasks/scale''
   \<and> fst (runSetup sampleWorld TaskCtx
             ((newTaskExecution sampleWorld sampleConfig ''scale'' sampleTask sampleLLM
                 (emptyResult ''scale'' sampleLLM))\<lparr>taskDir := ''/tasks/scale''\<rparr>)) = None
   \<and> fst (runAgent sampleWorld TaskCtx
             (snd (runSetup sampleWorld TaskCtx
                ((newTaskExecution sampleWorld sampleConfig ''scale'' sampleTask sampleLLM
                    (emptyResult ''scale'' sampleLLM))\<lparr>taskDir := ''/tasks/scale''\<rparr>))))
       = Inr (''Running: kubectl scale'' @ NL @ ''Scaled deployment to 3 replicas'')
   \<and> Expect sampleTask = [\<lparr>Contains = ''to 3''\<rparr>]
   \<and> lastCmdOutput (''Running: kubectl scale'' @ NL @ ''Scaled deployment to 3 replicas'')
       = ''Scaled deployment to 3 replicas''
   \<and> Result (fst (evaluateTask sampleWorld sampleConfig ''scale'' sampleTask sampleLLM)) = ''success''"
proof -
  let ?x0 = "(newTaskExecution sampleWorld sampleConfig ''scale'' sampleTask sampleLLM
                 (emptyResult ''scale'' sampleLLM))\<lparr>taskDir := ''/tasks/scale''\<rparr>"
  let ?out = "''Running: kubectl scale'' @ NL @ ''Scaled deployment to 3 replicas''"
  have h1: "taskTimeout sampleWorld sampleTask = Inr 1000000000"
    by (simp add: model_defs sample_defs)
  have h2: "filepath_Abs sampleWorld (filepath_Join sampleWorld [TasksDir sampleConfig, ''scale''])
            = Inr ''/tasks/scale''"
    by (simp add: model_defs sample_defs)
  have s1: "fst (runSetup sampleWorld TaskCtx ?x0) = None"
    by (simp add: model_defs sample_defs)
  have s2: "fst (runAgent sampleWorld TaskCtx (snd (runSetup sampleWorld TaskCtx ?x0))) = Inr ?out"
    by (simp add: model_defs sample_defs)
  have h3: "runSetup sampleWorld TaskCtx ?x0 = (None, snd (runSetup sampleWorld TaskCtx ?x0))"
    using s1 by (simp add: prod_eq_iff)
  have h4: "runAgent sampleWorld TaskCtx (snd (runSetup sampleWorld TaskCtx ?x0))
            = (Inr ?out, snd (runAgent sampleWorld TaskCtx (snd (runSetup sampleWorld TaskCtx ?x0))))"
    using s2 by (simp add: prod_eq_iff)
  have e: "Expect sampleTask = [\<lparr>Contains = ''to 3''\<rparr>]"
    by (simp add: sample_defs)
  have seg: "lastCmdOutput ?out = ''Scaled deployment to 3 replicas''"
    by (simp add: lastCmdOutput_def Let_def)
  have m: "patternMatches sampleWorld ''to 3'' ''Scaled deployment to 3 replicas''"
    by (simp add: patternMatches_def sampleWorld_def)
  have "Result (fst (evaluateTask sampleWorld sampleConfig ''scale'' sampleTask sampleLLM)) = ''success''"
    using evaluateTask_success_iff [OF h1 h2 h3 h4] e seg m by simp
  with h1 h2 s1 s2 e seg show ?thesis by blast
qed

section \<open>The log excerpt\<close>

lemma splitLines_nonempty [simp]: "splitLines s \<noteq> []"
  by (induction s) (auto split: list.splits)

lemma strings_Join_Cons_char:
  "strings_Join ((c # l) # ls) sep = c # strings_Join (l # ls) sep"
  by (cases ls) simp_all

lemma strings_Join_Cons:
  "ls \<noteq> [] \<Longrightarrow> strings_Join (l # ls) sep = l @ sep @ strings_Join ls sep"
  by (cases ls) simp_all

lemma join_splitLines: "strings_Join (splitLines s) NL = s"
proof (induction s)
  case Nil
  show ?case by simp
next
  case (Cons c s)
  obtain l ls where sp: "splitLines s = l # ls"
    by (cases "splitLines s") simp_all
  show ?case
    using Cons.IH sp by (simp add: strings_Join_Cons_char)
qed

lemma join_drop_suffix:
  "k < length ls \<Longrightarrow> \<exists>pre. strings_Join ls sep = pre @ strings_Join (drop k ls) sep"
proof (induction ls arbitrary: k)
  case Nil
  then show ?case by simp
next
  case (Cons l ls)
  show ?case
  proof (cases k)
    case 0
    then show ?thesis by simp
  next
    case (Suc j)
    with Cons.prems have j: "j < length ls" by simp
    then have ne: "ls \<noteq> []" by auto
    from Cons.IH [OF j] obtain pre where "strings_Join ls sep = pre @ strings_Join (drop j ls) sep"
      by blast
    then have "strings_Join (l # ls) sep = (l @ sep @ pre) @ strings_Join (drop (Suc j) (l # ls)) sep"
      using ne by (simp add: strings_Join_Cons)
    then show ?thesis using Suc by blast
  qed
qed

lemma splitLines_no_newline: "l \<in> set (splitLines s) \<Longrightarrow> CHR 0x0A \<notin> set l"
proof (induction s arbitrary: l)
  case Nil
  then show ?case by simp
next
  case (Cons c s)
  obtain l0 ls where sp: "splitLines s = l0 # ls"
    by (cases "splitLines s") simp_all
  show ?case
    using Cons.prems Cons.IH sp by (auto split: if_splits)
qed

lemma splitLines_line: "CHR 0x0A \<notin> set l \<Longrightarrow> splitLines l = [l]"
  by (induction l) auto

lemma splitLines_append: "CHR 0x0A \<notin> set l \<Longrightarrow> splitLines (l @ CHR 0x0A # s) = l # splitLines s"
  by (induction l) auto

lemma splitLines_join:
  "ls \<noteq> [] \<Longrightarrow> \<forall>l \<in> set ls. CHR 0x0A \<notin> set l \<Longrightarrow> splitLines (strings_Join ls NL) = ls"
proof (induction ls NL rule: strings_Join.induct)
  case 1
  then show ?case by simp
next
  case (2 s)
  then show ?case by (simp add: splitLines_line)
next
  case (3 s t ss)
  then show ?case by (simp add: splitLines_append del: splitLines.simps)
qed

lemma getLastNLines_lines:
  assumes "0 < n"
  shows "length (splitLines (fst (getLastNLines s n))) \<le> n"
proof (cases "length (splitLines s) > n")
  case True
  let ?d = "drop (length (splitLines s) - n) (splitLines s)"
  have ne: "?d \<noteq> []" using True assms by simp
  have nl: "\<forall>l \<in> set ?d. CHR 0x0A \<notin> set l"
    using splitLines_no_newline [of _ s] by (meson in_set_dropD)
  have "splitLines (strings_Join ?d NL) = ?d"
    using splitLines_join [OF ne nl] .
  then show ?thesis using True by (simp add: getLastNLines_def Let_def)
next
  case False
  then show ?thesis by (simp add: getLastNLines_def Let_def)
qed

lemma getLastNLines_suffix: "\<exists>pre. s = pre @ fst (getLastNLines s n)"
proof (cases "length (splitLines s) > n")
  case True
  show ?thesis
  proof (cases "n = 0")
    case True
    then show ?thesis by (simp add: getLastNLines_def Let_def)
  next
    case False
    with \<open>length (splitLines s) > n\<close>
    have "length (splitLines s) - n < length (splitLines s)" by simp
    from join_drop_suffix [OF this, of NL] show ?thesis
      using \<open>length (splitLines s) > n\<close> by (simp add: getLastNLines_def Let_def join_splitLines)
  qed
next
  case False
  then show ?thesis by (simp add: getLastNLines_def Let_def)
qed

section \<open>A failed agent run\<close>

lemma feedPrompts_Failures:
  "Failures (result (snd (feedPrompts w steps wr x))) =
     Failures (result x) @ promptFailure w steps (taskDir x)"
  by (induction steps arbitrary: wr) (simp_all add: emit_def AddFailure_def split: sum.splits)

lemma promptFailure_none:
  "\<forall>s \<in> set steps. \<exists>p. ResolvePrompt w s dir = Inr p \<Longrightarrow> promptFailure w steps dir = []"
  by (induction steps) auto

lemma runAgent_Failures:
  "Failures (result (snd (runAgent w ctx x))) =
     Failures (result x) @ promptFailure w (Script (task x)) (taskDir x)"
  by (simp add: runAgent_def Let_def split_beta feedPrompts_Failures split: option.splits)

text \<open>
  C5: when the agent run fails and the task context reports that its deadline was
  exceeded, the outcome is \<open>fail\<close> and the timeout adds exactly one Failure, which
  notes it, after whatever the prompt feeder recorded (nothing, when every prompt of
  the script resolves: the timeout Failure is then the only one). When the agent
  run fails and the deadline was not exceeded, the outcome is \<open>error\<close> and the error
  message carries an excerpt of the log: a suffix of the log of at most three lines,
  followed by a note when lines were cut.
\<close>

theorem evaluateTask_agent_failure:
  assumes timeout_ok: "taskTimeout w t = Inr timeout"
    and abs_ok: "filepath_Abs w (filepath_Join w [TasksDir config, tid]) = Inr dir"
    and setup_ok: "runSetup w TaskCtx
                  ((newTaskExecution w config tid t llm (emptyResult tid llm))\<lparr>taskDir := dir\<rparr>)
                = (None, x1)"
    and agent_failed: "runAgent w TaskCtx x1 = (Inl err, x2)"
  shows "(ctxErr w = DeadlineExceeded \<longrightarrow>
            Result (fst (evaluateTask w config tid t llm)) = ''fail''
          \<and> Failures (fst (evaluateTask w config tid t llm)) =
              promptFailure w (Script t) dir
              @ [\<lparr>Message = ''task timed out after '' @ DurationString w timeout\<rparr>]
          \<and> ((\<forall>s \<in> set (Script t). \<exists>p. ResolvePrompt w s dir = Inr p) \<longrightarrow>
              Failures (fst (evaluateTask w config tid t llm)) =
                [\<lparr>Message = ''task timed out after '' @ DurationString w timeout\<rparr>]))
       \<and> (ctxErr w \<noteq> DeadlineExceeded \<longrightarrow>
            Result (fst (evaluateTask w config tid t llm)) = ''error''
          \<and> Error (fst (evaluateTask w config tid t llm)) =
              ''agent encountered error: '' @ Error_msg err @ NL @ ''---LOG---'' @ NL
              @ fst (getLastNLines (logBuffer x2) 3)
              @ (if snd (getLastNLines (logBuffer x2) 3)
                 then NL @ ''... (log truncated, full log at '' @ taskOutputDir x2 @ '')''
                 else [])
          \<and> length (splitLines (fst (getLastNLines (logBuffer x2) 3))) \<le> 3
          \<and> (\<exists>pre. logBuffer x2 = pre @ fst (getLastNLines (logBuffer x2) 3)))"
proof -
  let ?x0 = "(newTaskExecution w config tid t llm (emptyResult tid llm))\<lparr>taskDir := dir\<rparr>"
  let ?r = "fst (evaluateTask w config tid t llm)"
  have x1: "x1 = snd (runSetup w TaskCtx ?x0)" using setup_ok by simp
  have x2: "x2 = snd (runAgent w TaskCtx x1)" using agent_failed by simp
  have fails: "Failures (result x2) = promptFailure w (Script t) dir"
    unfolding x2 runAgent_Failures by (simp add: x1 emptyResult_def)
  have ret: "?r = fst (evaluateTask_body w timeout ?x0)"
    using evaluateTask_fst [OF timeout_ok abs_ok] .
  have deadline: "Result ?r = ''fail''
      \<and> Failures ?r = promptFailure w (Script t) dir
                       @ [\<lparr>Message = ''task timed out after '' @ DurationString w timeout\<rparr>]"
    if "ctxErr w = DeadlineExceeded"
    unfolding ret using that setup_ok agent_failed fails
    by (simp add: evaluateTask_body_def Let_def AddFailure_def)
  have other: "Result ?r = ''error''
      \<and> Error ?r = ''agent encountered error: '' @ Error_msg err @ NL @ ''---LOG---'' @ NL
              @ fst (getLastNLines (logBuffer x2) 3)
              @ (if snd (getLastNLines (logBuffer x2) 3)
                 then NL @ ''... (log truncated, full log at '' @ taskOutputDir x2 @ '')''
                 else [])"
    if "ctxErr w \<noteq> DeadlineExceeded"
    unfolding ret using that setup_ok agent_failed
    by (simp add: evaluateTask_body_def Let_def logExcerpt_def logBuffer_def split_beta)
  have lines: "length (splitLines (fst (getLastNLines (logBuffer x2) 3))) \<le> 3"
    by (rule getLastNLines_lines) simp
  have suffix: "\<exists>pre. logBuffer x2 = pre @ fst (getLastNLines (logBuffer x2) 3)"
    by (rule getLastNLines_suffix)
  show ?thesis
    using deadline other lines suffix promptFailure_none [of "Script t" w dir]
    by (metis append_Nil)
qed


theorem evaluateTask_agent_failure_witness:
  "taskTimeout timeoutWorld sampleTask = Inr 1000000000
   \<and> filepath_Abs timeoutWorld (filepath_Join timeoutWorld [TasksDir sampleConfig, ''scale''])
       = Inr ''/tasks/scale''
   \<and> fst (runSetup timeoutWorld TaskCtx
             ((newTaskExecution timeoutWorld sampleConfig ''scale'' sampleTask sampleLLM
                 (emptyResult ''scale'' sampleLLM))\<lparr>taskDir := ''/tasks/scale''\<rparr>)) = None
   \<and> fst (runAgent timeoutWorld TaskCtx
             (snd (runSetup timeoutWorld TaskCtx
                ((newTaskExecution timeoutWorld sampleConfig ''scale'' sampleTask sampleLLM
                    (emptyResult ''scale'' sampleLLM))\<lparr>taskDir := ''/tasks/scale''\<rparr>))))
       = Inl (Cause ''exit status 1'')
   \<and> ctxErr timeoutWorld = DeadlineExceeded
   \<and> Result (fst (evaluateTask timeoutWorld sampleConfig ''scale'' sampleTask sampleLLM)) = ''fail''
   \<and> Failures (fst (evaluateTask timeoutWorld sampleConfig ''scale'' sampleTask sampleLLM))
       = [\<lparr>Message = ''task timed out after 1s''\<rparr>]
   \<and> fst (runSetup agentFailsWorld TaskCtx
             ((newTaskExecution agentFailsWorld sampleConfig ''scale'' sampleTask sampleLLM
                 (emptyResult ''scale'' sampleLLM))\<lparr>taskDir := ''/tasks/scale''\<rparr>)) = None
   \<and> fst (runAgent agentFailsWorld TaskCtx
             (snd (runSetup agentFailsWorld TaskCtx
                ((newTaskExecution agentFailsWorld sampleConfig ''scale'' sampleTask sampleLLM
                    (emptyResult ''scale'' sampleLLM))\<lparr>taskDir := ''/tasks/scale''\<rparr>))))
       = Inl (Cause ''exit status 1'')
   \<and> ctxErr agentFailsWorld = NoError
   \<and> Result (fst (evaluateTask agentFailsWorld sampleConfig ''scale'' sampleTask sampleLLM)) = ''error''
   \<and> Error (fst (evaluateTask agentFailsWorld sampleConfig ''scale'' sampleTask sampleLLM))
       = ''agent encountered error: exit status 1'' @ NL @ ''---LOG---'' @ NL
         @ ''b'' @ NL @ ''c'' @ NL @ ''d'' @ NL @ ''... (log truncated, full log at out/scale)''"
proof -
  let ?x0 = "\<lambda>w. (newTaskExecution w sampleConfig ''scale'' sampleTask sampleLLM
                 (emptyResult ''scale'' sampleLLM))\<lparr>taskDir := ''/tasks/scale''\<rparr>"
  let ?x1 = "\<lambda>w. snd (runSetup w TaskCtx (?x0 w))"
  let ?x2 = "\<lambda>w. snd (runAgent w TaskCtx (?x1 w))"
  have t1: "taskTimeout timeoutWorld sampleTask = Inr 1000000000"
    by (simp add: model_defs sample_defs)
  have t2: "filepath_Abs timeoutWorld (filepath_Join timeoutWorld [TasksDir sampleConfig, ''scale''])
            = Inr ''/tasks/scale''"
    by (simp add: model_defs sample_defs)
  have t3: "fst (runSetup timeoutWorld TaskCtx (?x0 timeoutWorld)) = None"
    by (simp add: model_defs sample_defs)
  have t4: "fst (runAgent timeoutWorld TaskCtx (?x1 timeoutWorld)) = Inl (Cause ''exit status 1'')"
    by (simp add: model_defs sample_defs)
  have t5: "ctxErr timeoutWorld = DeadlineExceeded"
    by (simp add: sample_defs)
  have t6: "\<forall>s \<in> set (Script sampleTask). \<exists>p. ResolvePrompt timeoutWorld s ''/tasks/scale'' = Inr p"
    by (simp add: sample_defs)
  have t7: "DurationString timeoutWorld 1000000000 = ''1s''"
    by (simp add: sample_defs)
  have t3': "runSetup timeoutWorld TaskCtx (?x0 timeoutWorld) = (None, ?x1 timeoutWorld)"
    using t3 by (simp add: prod_eq_iff)
  have t4': "runAgent timeoutWorld TaskCtx (?x1 timeoutWorld)
             = (Inl (Cause ''exit status 1''), ?x2 timeoutWorld)"
    using t4 by (simp add: prod_eq_iff)
  have a1: "taskTimeout agentFailsWorld sampleTask = Inr 1000000000"
    by (simp add: model_defs sample_defs)
  have a2: "filepath_Abs agentFailsWorld (filepath_Join agentFailsWorld [TasksDir sampleConfig, ''scale''])
            = Inr ''/tasks/scale''"
    by (simp add: model_defs sample_defs)
  have a3: "fst (runSetup agentFailsWorld TaskCtx (?x0 agentFailsWorld)) = None"
    by (simp add: model_defs sample_defs)
  have a4: "fst (runAgent agentFailsWorld TaskCtx (?x1 agentFailsWorld)) = Inl (Cause ''exit status 1'')"
    by (simp add: model_defs sample_defs)
  have a5: "ctxErr agentFailsWorld = NoError"
    by (simp add: sample_defs)
  have a6: "logBuffer (?x2 agentFailsWorld) = ''a'' @ NL @ ''b'' @ NL @ ''c'' @ NL @ ''d''"
    by (simp add: model_defs sample_defs)
  have a7: "taskOutputDir (?x2 agentFailsWorld) = ''out/scale''"
    by (simp add: newTaskExecution_def sample_defs Let_def)
  have a8: "getLastNLines (''a'' @ NL @ ''b'' @ NL @ ''c'' @ NL @ ''d'') 3
            = (''b'' @ NL @ ''c'' @ NL @ ''d'', True)"
    by (simp add: getLastNLines_def Let_def)
  have a3': "runSetup agentFailsWorld TaskCtx (?x0 agentFailsWorld) = (None, ?x1 agentFailsWorld)"
    using a3 by (simp add: prod_eq_iff)
  have a4': "runAgent agentFailsWorld TaskCtx (?x1 agentFailsWorld)
             = (Inl (Cause ''exit status 1''), ?x2 agentFailsWorld)"
    using a4 by (simp add: prod_eq_iff)
  have dl: "Result (fst (evaluateTask timeoutWorld sampleConfig ''scale'' sampleTask sampleLLM)) = ''fail''
      \<and> Failures (fst (evaluateTask timeoutWorld sampleConfig ''scale'' sampleTask sampleLLM))
          = [\<lparr>Message = ''task timed out after 1s''\<rparr>]"
  proof -
    note th = evaluateTask_agent_failure [OF t1 t2 t3' t4']
    from th t5 have r: "Result (fst (evaluateTask timeoutWorld sampleConfig ''scale'' sampleTask sampleLLM)) = ''fail''"
      by blast
    from th t5 t6 have "Failures (fst (evaluateTask timeoutWorld sampleConfig ''scale'' sampleTask sampleLLM))
          = [\<lparr>Message = ''task timed out after '' @ DurationString timeoutWorld 1000000000\<rparr>]"
      by blast
    with t7 r show ?thesis by simp
  qed
  have er: "Result (fst (evaluateTask agentFailsWorld sampleConfig ''scale'' sampleTask sampleLLM)) = ''error''
      \<and> Error (fst (evaluateTask agentFailsWorld sampleConfig ''scale'' sampleTask sampleLLM))
       = ''agent encountered error: exit status 1'' @ NL @ ''---LOG---'' @ NL
         @ ''b'' @ NL @ ''c'' @ NL @ ''d'' @ NL @ ''... (log truncated, full log at out/scale)''"
    using evaluateTask_agent_failure [OF a1 a2 a3' a4'] a5 a6 a7 a8 by simp
  from t1 t2 t3 t4 t5 dl a3 a4 a5 er show ?thesis by blast
qed

section \<open>Success with a failed verifier\<close>

lemma verify_verifier_failed:
  assumes "Expect (task x) \<noteq> []"
    and "checkExpectations w (Expect (task x)) (lastCmdOutput agentOutput) [] = []"
    and "Verifier (task x) \<noteq> []"
    and "exitErr (cmdRun w VerifierPhase (verifierCmd w x)) = Some err"
  shows "Result (fst (evaluateTask_verify w agentOutput x)) = ''success''
       \<and> (\<exists>detail. Failures (fst (evaluateTask_verify w agentOutput x)) =
             Failures (result x) @ [\<lparr>Message = ''verifier script failed: '' @ detail\<rparr>])"
  using assms
  by (simp add: evaluateTask_verify_def Let_def split_beta runCommand_eq AddFailure_def)

text \<open>
  C10: when a task declares both expectations and a verifier, every declared pattern
  matches the last-command output segment and the verifier run fails, the outcome
  is \<open>success\<close> and the Failures of the result end with the record of the verifier
  failure: a \<open>success\<close> result can carry a non-empty list of Failures.
\<close>

theorem evaluateTask_success_with_failures:
  assumes timeout_ok: "taskTimeout w t = Inr timeout"
    and abs_ok: "filepath_Abs w (filepath_Join w [TasksDir config, tid]) = Inr dir"
    and setup_ok: "runSetup w TaskCtx
                  ((newTaskExecution w config tid t llm (emptyResult tid llm))\<lparr>taskDir := dir\<rparr>)
                = (None, x1)"
    and agent_ok: "runAgent w TaskCtx x1 = (Inr agentOutput, x2)"
    and declared: "Expect t \<noteq> []" "Verifier t \<noteq> []"
    and matched: "\<forall>e \<in> set (Expect t).
                    Contains e \<noteq> [] \<longrightarrow>
                    patternMatches w (Contains e) (lastCmdOutput agentOutput)"
    and verifier_failed: "exitErr (cmdRun w VerifierPhase (verifierCmd w x2)) = Some err"
  shows "Result (fst (evaluateTask w config tid t llm)) = ''success''
       \<and> (\<exists>detail. Failures (fst (evaluateTask w config tid t llm)) =
             promptFailure w (Script t) dir
             @ [\<lparr>Message = ''verifier script failed: '' @ detail\<rparr>])
       \<and> Failures (fst (evaluateTask w config tid t llm)) \<noteq> []"
proof -
  let ?x0 = "(newTaskExecution w config tid t llm (emptyResult tid llm))\<lparr>taskDir := dir\<rparr>"
  have x1: "x1 = snd (runSetup w TaskCtx ?x0)" using setup_ok by simp
  have x2: "x2 = snd (runAgent w TaskCtx x1)" using agent_ok by simp
  have task2: "Expect (task x2) = Expect t" "Verifier (task x2) = Verifier t"
    by (simp_all add: x1 x2)
  have fails: "Failures (result x2) = promptFailure w (Script t) dir"
    unfolding x2 runAgent_Failures by (simp add: x1 emptyResult_def)
  have ret: "fst (evaluateTask w config tid t llm) = fst (evaluateTask_verify w agentOutput x2)"
    using evaluateTask_fst [OF timeout_ok abs_ok, of llm] setup_ok agent_ok
    by (simp add: evaluateTask_body_def)
  have met: "checkExpectations w (Expect (task x2)) (lastCmdOutput agentOutput) [] = []"
    using matched by (simp add: task2 checkExpectations_empty)
  have "Result (fst (evaluateTask_verify w agentOutput x2)) = ''success''
       \<and> (\<exists>detail. Failures (fst (evaluateTask_verify w agentOutput x2)) =
             Failures (result x2) @ [\<lparr>Message = ''verifier script failed: '' @ detail\<rparr>])"
    using verify_verifier_failed [OF _ met _ verifier_failed] declared by (simp add: task2)
  then show ?thesis
    unfolding ret fails by auto
qed

theorem evaluateTask_success_with_failures_witness:
  "taskTimeout verifierFailsWorld (sampleTask\<lparr>Verifier := ''verify.sh''\<rparr>) = Inr 1000000000
   \<and> filepath_Abs verifierFailsWorld
         (filepath_Join verifierFailsWorld [TasksDir sampleConfig, ''scale'']) = Inr ''/tasks/scale''
   \<and> fst (runSetup verifierFailsWorld TaskCtx
             ((newTaskExecution verifierFailsWorld sampleConfig ''scale''
                 (sampleTask\<lparr>Verifier := ''verify.sh''\<rparr>) sampleLLM
                 (emptyResult ''scale'' sampleLLM))\<lparr>taskDir := ''/tasks/scale''\<rparr>)) = None
   \<and> fst (runAgent verifierFailsWorld TaskCtx
             (snd (runSetup verifierFailsWorld TaskCtx
                ((newTaskExecution verifierFailsWorld sampleConfig ''scale''
                    (sampleTask\<lparr>Verifier := ''verify.sh''\<rparr>) sampleLLM
                    (emptyResult ''scale'' sampleLLM))\<lparr>taskDir := ''/tasks/scale''\<rparr>))))
       = Inr (''Running: kubectl scale'' @ NL @ ''Scaled deployment to 3 replicas'')
   \<and> Expect (sampleTask\<lparr>Verifier := ''verify.sh''\<rparr>) = [\<lparr>Contains = ''to 3''\<rparr>]
   \<and> patternMatches verifierFailsWorld ''to 3''
         (lastCmdOutput (''Running: kubectl scale'' @ NL @ ''Scaled deployment to 3 replicas''))
   \<and> Result (fst (evaluateTask verifierFailsWorld sampleConfig ''scale''
                     (sampleTask\<lparr>Verifier := ''verify.sh''\<rparr>) sampleLLM)) = ''success''
   \<and> Failures (fst (evaluateTask verifierFailsWorld sampleConfig ''scale''
                     (sampleTask\<lparr>Verifier := ''verify.sh''\<rparr>) sampleLLM)) \<noteq> []"
proof -
  let ?t = "sampleTask\<lparr>Verifier := ''verify.sh''\<rparr>"
  let ?w = verifierFailsWorld
  let ?x0 = "(newTaskExecution ?w sampleConfig ''scale'' ?t sampleLLM
                 (emptyResult ''scale'' sampleLLM))\<lparr>taskDir := ''/tasks/scale''\<rparr>"
  let ?x1 = "snd (runSetup ?w TaskCtx ?x0)"
  let ?x2 = "snd (runAgent ?w TaskCtx ?x1)"
  let ?out = "''Running: kubectl scale'' @ NL @ ''Scaled deployment to 3 replicas''"
  have h1: "taskTimeout ?w ?t = Inr 1000000000"
    by (simp add: model_defs sample_defs)
  have h2: "filepath_Abs ?w (filepath_Join ?w [TasksDir sampleConfig, ''scale'']) = Inr ''/tasks/scale''"
    by (simp add: model_defs sample_defs)
  have s1: "fst (runSetup ?w TaskCtx ?x0) = None"
    by (simp add: model_defs sample_defs)
  have s2: "fst (runAgent ?w TaskCtx ?x1) = Inr ?out"
    by (simp add: model_defs sample_defs)
  have h3: "runSetup ?w TaskCtx ?x0 = (None, ?x1)"
    using s1 by (simp add: prod_eq_iff)
  have h4: "runAgent ?w TaskCtx ?x1 = (Inr ?out, ?x2)"
    using s2 by (simp add: prod_eq_iff)
  have e: "Expect ?t = [\<lparr>Contains = ''to 3''\<rparr>]"
    by (simp add: sample_defs)
  have d: "Expect ?t \<noteq> []" "Verifier ?t \<noteq> []"
    by (simp_all add: sample_defs)
  have pm: "patternMatches ?w ''to 3'' (lastCmdOutput ?out)"
    by (simp add: patternMatches_def lastCmdOutput_def Let_def sample_defs)
  have m: "\<forall>e \<in> set (Expect ?t). Contains e \<noteq> [] \<longrightarrow> patternMatches ?w (Contains e) (lastCmdOutput ?out)"
    using pm by (simp add: e)
  have v: "exitErr (cmdRun ?w VerifierPhase (verifierCmd ?w ?x2)) = Some (Cause ''exit status 1'')"
    by (simp add: sample_defs)
  from evaluateTask_success_with_failures [OF h1 h2 h3 h4 d m v]
  have "Result (fst (evaluateTask ?w sampleConfig ''scale'' ?t sampleLLM)) = ''success''
      \<and> Failures (fst (evaluateTask ?w sampleConfig ''scale'' ?t sampleLLM)) \<noteq> []"
    by blast
  with h1 h2 s1 s2 e pm show ?thesis by blast
qed

section \<open>A failed setup\<close>

text \<open>
  C2: every TaskResult that \<open>evaluateTask\<close> returns has its outcome set to one of
  \<open>success\<close>, \<open>fail\<close>, \<open>error\<close>. The code departs from this where \<open>runSetup\<close>
  fails: that branch, commented as an unexpected error like the branch for a failed
  agent run, records the error string and returns, but unlike that branch it does
  not set the outcome, which stays the empty string. Here provisioning of the
  per-task cluster fails.
\<close>

theorem evaluateTask_provision_failure_outcome:
  "Result (fst (evaluateTask provisionFailsWorld (sampleConfig\<lparr>ClusterProvider := ''vcluster''\<rparr>)
                  ''scale'' sampleTask sampleLLM)) = []
   \<and> Result (fst (evaluateTask provisionFailsWorld (sampleConfig\<lparr>ClusterProvider := ''vcluster''\<rparr>)
                  ''scale'' sampleTask sampleLLM)) \<notin> {''success'', ''fail'', ''error''}"
  by code_simp

text \<open>
  C3: when the setup script of a task fails, the state machine stops before the agent
  run and the result has outcome \<open>error\<close>, with the setup error recorded. The code
  stops before the agent run (only the setup and the cleanup script are run) and
  records the error, but it leaves the outcome unset: the empty string, not
  \<open>error\<close>.
\<close>

theorem evaluateTask_setup_failure_outcome:
  "fst (evaluateTask setupFailsWorld sampleConfig ''scale'' sampleTask sampleLLM)
     = \<lparr>Task = ''scale'', LLMConfig = sampleLLM, Result = [],
        Error = ''running command /tasks/scale/setup.sh: exit status 1'', Failures = []\<rparr>
   \<and> execPhases (snd (evaluateTask setupFailsWorld sampleConfig ''scale'' sampleTask sampleLLM))
     = [SetupPhase, CleanupPhase]"
  by code_simp

section \<open>Cleanup\<close>

lemma emit_emit: "emit bs (emit as x) = emit (as @ bs) x"
  by (simp add: emit_def)

lemma emit_Nil [simp]: "emit [] x = x"
  by (simp add: emit_def)

lemma runCleanup_loop_eq:
  "runCleanup_loop w cs errs x =
     (errs @ List.map_filter (callCleanup w) cs, emit (map cleanupEvent cs) x)"
proof (induction cs arbitrary: errs x)
  case Nil
  show ?case by (simp add: List.map_filter_simps)
next
  case (Cons c cs)
  show ?case
    by (simp add: Cons.IH emit_emit List.map_filter_simps split: option.splits)
qed

lemma runCleanup_script_frame [simp]:
  "cleanupFunctions (runCleanup_script w ctx x) = cleanupFunctions x"
  "task (runCleanup_script w ctx x) = task x"
  "result (runCleanup_script w ctx x) = result x"
  by (simp_all add: runCleanup_script_def runCommand_eq split: option.splits)

lemma runCleanup_script_effects:
  "effects (runCleanup_script w ctx x) =
     (if Cleanup (task x) = [] then effects x
      else effects x
           @ [Print (NL @ ''Running command: '' @ strings_Join (Args (cleanupCmd w ctx x)) '' '' @ NL),
              Exec CleanupPhase (cleanupCmd w ctx x)]
           @ (case exitErr (cmdRun w CleanupPhase (cleanupCmd w ctx x)) of
                None \<Rightarrow> []
              | Some err \<Rightarrow>
                  [Print (''Warning: cleanup failed for task '' @ taskID x @ '': ''
                          @ Error_msg (Wrap (''running command ''
                                @ strings_Join (Args (cleanupCmd w ctx x)) '' '' @ '': '') err)
                          @ NL)]))"
  by (simp add: runCleanup_script_def runCommand_eq split: option.splits)

text \<open>
  C6, as the code has it: \<open>runCleanup\<close> first runs the declared cleanup script, whose
  failure is printed as a warning and is no part of the returned error; then it
  calls every registered cleanup function, in the order of registration, whether or
  not an earlier one failed; it returns the join of the errors of those that failed
  (nil when none did).
\<close>

theorem runCleanup_order:
  "fst (runCleanup w ctx x) = errors_Join (List.map_filter (callCleanup w) (cleanupFunctions x))
   \<and> effects (snd (runCleanup w ctx x)) =
       effects (runCleanup_script w ctx x) @ map cleanupEvent (cleanupFunctions x)
   \<and> (Cleanup (task x) = [] \<longrightarrow> effects (runCleanup_script w ctx x) = effects x)
   \<and> (Cleanup (task x) \<noteq> [] \<longrightarrow>
        effects (runCleanup_script w ctx x) =
          effects x
          @ [Print (NL @ ''Running command: '' @ strings_Join (Args (cleanupCmd w ctx x)) '' '' @ NL),
             Exec CleanupPhase (cleanupCmd w ctx x)]
          @ (case exitErr (cmdRun w CleanupPhase (cleanupCmd w ctx x)) of
               None \<Rightarrow> []
             | Some err \<Rightarrow>
                 [Print (''Warning: cleanup failed for task '' @ taskID x @ '': ''
                         @ Error_msg (Wrap (''running command ''
                               @ strings_Join (Args (cleanupCmd w ctx x)) '' '' @ '': '') err)
                         @ NL)]))"
proof -
  have res: "fst (runCleanup w ctx x) = errors_Join (List.map_filter (callCleanup w) (cleanupFunctions x))"
    by (simp add: runCleanup_def Let_def runCleanup_loop_eq)
  have eff: "effects (snd (runCleanup w ctx x)) =
       effects (runCleanup_script w ctx x) @ map cleanupEvent (cleanupFunctions x)"
    by (simp add: runCleanup_def Let_def runCleanup_loop_eq)
  show ?thesis
    using res eff runCleanup_script_effects [of w ctx x] by simp
qed

theorem runCleanup_order_witness:
  "Cleanup (task twoTeardowns) = ''cleanup.sh''
   \<and> cleanupFunctions twoTeardowns = [DeleteCluster ''a'', DeleteCluster ''b'']
   \<and> exitErr (cmdRun cleanupFailsWorld CleanupPhase (cleanupCmd cleanupFailsWorld Background twoTeardowns))
       = Some (Cause ''exit status 1'')
   \<and> fst (runCleanup cleanupFailsWorld Background twoTeardowns)
       = Some (Joined [Cause ''cannot delete a'', Cause ''cannot delete b''])
   \<and> execPhases (effects (snd (runCleanup cleanupFailsWorld Background twoTeardowns))) = [CleanupPhase]
   \<and> deletions (effects (snd (runCleanup cleanupFailsWorld Background twoTeardowns))) = [''a'', ''b'']"
proof -
  let ?w = cleanupFailsWorld
  have c: "Cleanup (task twoTeardowns) = ''cleanup.sh''"
    by code_simp
  have f: "cleanupFunctions twoTeardowns = [DeleteCluster ''a'', DeleteCluster ''b'']"
    by code_simp
  have e: "exitErr (cmdRun ?w CleanupPhase (cleanupCmd ?w Background twoTeardowns))
           = Some (Cause ''exit status 1'')"
    by code_simp
  have x: "effects twoTeardowns = []"
    by code_simp
  have d: "callCleanup ?w (DeleteCluster ''a'') = Some (Cause ''cannot delete a'')"
          "callCleanup ?w (DeleteCluster ''b'') = Some (Cause ''cannot delete b'')"
    by (simp_all add: cleanupFailsWorld_def)
  note th = runCleanup_order [of ?w Background twoTeardowns]
  have r: "fst (runCleanup ?w Background twoTeardowns)
           = Some (Joined [Cause ''cannot delete a'', Cause ''cannot delete b''])"
    using th f d by (simp add: errors_Join_def List.map_filter_simps)
  have eff: "effects (snd (runCleanup ?w Background twoTeardowns)) =
          [Print (NL @ ''Running command: '' @ strings_Join (Args (cleanupCmd ?w Background twoTeardowns)) '' '' @ NL),
             Exec CleanupPhase (cleanupCmd ?w Background twoTeardowns),
             Print (''Warning: cleanup failed for task '' @ taskID twoTeardowns @ '': ''
                         @ Error_msg (Wrap (''running command ''
                               @ strings_Join (Args (cleanupCmd ?w Background twoTeardowns)) '' '' @ '': '')
                               (Cause ''exit status 1''))
                         @ NL),
             ProviderDelete ''a'', ProviderDelete ''b'']"
    using th c f e x by simp
  have p: "execPhases (effects (snd (runCleanup ?w Background twoTeardowns))) = [CleanupPhase]"
    unfolding eff by simp
  have dl: "deletions (effects (snd (runCleanup ?w Background twoTeardowns))) = [''a'', ''b'']"
    unfolding eff by simp
  from c f e r p dl show ?thesis by blast
qed

text \<open>
  C6 as stated asks for the reverse of the registration order; the loop runs from
  the first registered function to the last.
\<close>

theorem runCleanup_order_counterexample:
  "cleanupFunctions twoTeardowns = [DeleteCluster ''a'', DeleteCluster ''b'']
   \<and> deletions (effects (snd (runCleanup sampleWorld Background twoTeardowns))) = [''a'', ''b'']
   \<and> deletions (effects (snd (runCleanup sampleWorld Background twoTeardowns))) \<noteq> [''b'', ''a'']"
  by code_simp

section \<open>The result does not depend on how cleanup ends\<close>

lemma wco_fields [simp]:
  "ParseDuration (withCleanupOutcomes w rc del) = ParseDuration w"
  "DurationString (withCleanupOutcomes w rc del) = DurationString w"
  "filepath_Join (withCleanupOutcomes w rc del) = filepath_Join w"
  "filepath_Abs (withCleanupOutcomes w rc del) = filepath_Abs w"
  "regexp_Compile (withCleanupOutcomes w rc del) = regexp_Compile w"
  "fmtQ (withCleanupOutcomes w rc del) = fmtQ w"
  "WriteFile (withCleanupOutcomes w rc del) = WriteFile w"
  "ResolvePrompt (withCleanupOutcomes w rc del) = ResolvePrompt w"
  "providerCreate (withCleanupOutcomes w rc del) = providerCreate w"
  "providerGetKubeconfig (withCleanupOutcomes w rc del) = providerGetKubeconfig w"
  "ctxErr (withCleanupOutcomes w rc del) = ctxErr w"
  "ph \<noteq> CleanupPhase \<Longrightarrow> cmdRun (withCleanupOutcomes w rc del) ph = cmdRun w ph"
  by (simp_all add: withCleanupOutcomes_def fun_eq_iff)

lemma wco_runCommand:
  "ph \<noteq> CleanupPhase \<Longrightarrow> runCommand (withCleanupOutcomes w rc del) ph c x = runCommand w ph c x"
  by (simp add: runCommand_def)

lemma wco_runSetup: "runSetup (withCleanupOutcomes w rc del) ctx x = runSetup w ctx x"
  by (simp add: runSetup_def runSetup_script_def setupCmd_def wco_runCommand Let_def
           cong: option.case_cong sum.case_cong)

lemma wco_feedPrompts:
  "feedPrompts (withCleanupOutcomes w rc del) steps wr x = feedPrompts w steps wr x"
  by (induction steps arbitrary: wr) (simp_all split: sum.splits)

lemma wco_runAgent: "runAgent (withCleanupOutcomes w rc del) ctx x = runAgent w ctx x"
  by (simp add: runAgent_def wco_feedPrompts Let_def split_beta cong: option.case_cong)

lemma wco_checkExpectations:
  "checkExpectations (withCleanupOutcomes w rc del) es out acc = checkExpectations w es out acc"
  by (induction es arbitrary: acc) (simp_all split: sum.splits)

lemma wco_verify:
  "evaluateTask_verify (withCleanupOutcomes w rc del) out x = evaluateTask_verify w out x"
  by (simp add: evaluateTask_verify_def wco_checkExpectations wco_runCommand verifierCmd_def
           Let_def split_beta cong: option.case_cong if_cong)

lemma wco_body:
  "evaluateTask_body (withCleanupOutcomes w rc del) timeout x = evaluateTask_body w timeout x"
  by (simp add: evaluateTask_body_def wco_runSetup wco_runAgent wco_verify Let_def split_beta
           split: option.splits sum.splits)

lemma wco_result:
  "fst (evaluateTask (withCleanupOutcomes w rc del) config tid t llm)
     = fst (evaluateTask w config tid t llm)"
  by (simp add: evaluateTask_def taskTimeout_def newTaskExecution_def wco_body Let_def split_beta
           split: sum.splits)

lemma verify_frame [simp]:
  "task (snd (evaluateTask_verify w out x)) = task x"
  "taskDir (snd (evaluateTask_verify w out x)) = taskDir x"
  "cleanupFunctions (snd (evaluateTask_verify w out x)) = cleanupFunctions x"
  by (simp_all add: evaluateTask_verify_def Let_def split_beta runCommand_eq split: option.splits)

lemma body_task [simp]:
  "task (snd (evaluateTask_body w timeout x)) = task x"
  by (simp add: evaluateTask_body_def Let_def split_beta split: option.splits sum.splits)

lemma runCleanup_effects:
  "\<exists>post. effects (snd (runCleanup w ctx x)) = effects x @ post
      \<and> (Cleanup (task x) \<noteq> [] \<longrightarrow> Exec CleanupPhase (cleanupCmd w ctx x) \<in> set post)
      \<and> (\<forall>c \<in> set (cleanupFunctions x). cleanupEvent c \<in> set post)"
proof (cases "Cleanup (task x) = []")
  case True
  then have "effects (snd (runCleanup w ctx x)) = effects x @ map cleanupEvent (cleanupFunctions x)"
    by (simp add: runCleanup_def Let_def runCleanup_loop_eq runCleanup_script_effects)
  then show ?thesis using True by auto
next
  case False
  let ?warn = "case exitErr (cmdRun w CleanupPhase (cleanupCmd w ctx x)) of
                None \<Rightarrow> []
              | Some err \<Rightarrow>
                  [Print (''Warning: cleanup failed for task '' @ taskID x @ '': ''
                          @ Error_msg (Wrap (''running command ''
                                @ strings_Join (Args (cleanupCmd w ctx x)) '' '' @ '': '') err)
                          @ NL)]"
  let ?post = "[Print (NL @ ''Running command: '' @ strings_Join (Args (cleanupCmd w ctx x)) '' '' @ NL),
              Exec CleanupPhase (cleanupCmd w ctx x)] @ ?warn @ map cleanupEvent (cleanupFunctions x)"
  have "effects (snd (runCleanup w ctx x)) = effects x @ ?post"
    using False by (simp add: runCleanup_def Let_def runCleanup_loop_eq runCleanup_script_effects)
  moreover have "Exec CleanupPhase (cleanupCmd w ctx x) \<in> set ?post" by simp
  moreover have "\<forall>c \<in> set (cleanupFunctions x). cleanupEvent c \<in> set ?post" by simp
  ultimately show ?thesis by blast
qed

text \<open>
  C8, as the code has it: once the timeout has parsed and the task directory has
  resolved (the two checks that return before the cleanup is deferred), cleanup runs
  after the body of \<open>evaluateTask\<close> has returned, however the body ended. The
  effects of \<open>evaluateTask\<close> are those of its body followed by those of
  \<open>runCleanup\<close>, called with the background context: the cleanup script when the
  task declares one, and every registered cleanup function. The result returned is
  the one the body returned, and it is the same whatever the cleanup script and the
  deletions give back.
\<close>

theorem evaluateTask_cleanup_deferred:
  assumes timeout_ok: "taskTimeout w t = Inr timeout"
    and abs_ok: "filepath_Abs w (filepath_Join w [TasksDir config, tid]) = Inr dir"
    and body: "evaluateTask_body w timeout
                 ((newTaskExecution w config tid t llm (emptyResult tid llm))\<lparr>taskDir := dir\<rparr>)
               = (returned, x2)"
  shows "fst (evaluateTask w config tid t llm) = returned
       \<and> snd (evaluateTask w config tid t llm) =
           effects (snd (runCleanup w Background x2))
           @ (case fst (runCleanup w Background x2) of
                None \<Rightarrow> []
              | Some err \<Rightarrow> [Print (''Warning: cleanup failed for task '' @ tid @ '': ''
                                     @ Error_msg err @ NL)])
       \<and> (\<exists>post. effects (snd (runCleanup w Background x2)) = effects x2 @ post
              \<and> (Cleanup t \<noteq> [] \<longrightarrow> Exec CleanupPhase (cleanupCmd w Background x2) \<in> set post)
              \<and> (\<forall>c \<in> set (cleanupFunctions x2). cleanupEvent c \<in> set post))
       \<and> Ctx (cleanupCmd w Background x2) = Background
       \<and> (\<forall>rc del. fst (evaluateTask (withCleanupOutcomes w rc del) config tid t llm) = returned)"
proof -
  let ?x0 = "(newTaskExecution w config tid t llm (emptyResult tid llm))\<lparr>taskDir := dir\<rparr>"
  have ret: "fst (evaluateTask w config tid t llm) = returned"
    using evaluateTask_fst [OF timeout_ok abs_ok, of llm] body by simp
  have x2: "x2 = snd (evaluateTask_body w timeout ?x0)" using body by simp
  have cl: "Cleanup (task x2) = Cleanup t"
    unfolding x2 by simp
  have tr: "snd (evaluateTask w config tid t llm) =
           effects (snd (runCleanup w Background x2))
           @ (case fst (runCleanup w Background x2) of
                None \<Rightarrow> []
              | Some err \<Rightarrow> [Print (''Warning: cleanup failed for task '' @ tid @ '': ''
                                     @ Error_msg err @ NL)])"
    using timeout_ok abs_ok body
    by (simp add: evaluateTask_def Let_def split_beta split: option.splits)
  have ctx: "Ctx (cleanupCmd w Background x2) = Background"
    by (simp add: cleanupCmd_def exec_CommandContext_def Let_def)
  have indep: "\<forall>rc del. fst (evaluateTask (withCleanupOutcomes w rc del) config tid t llm) = returned"
    using wco_result [of w _ _ config tid t llm] ret by simp
  show ?thesis
    using ret tr ctx indep runCleanup_effects [of w Background x2] by (simp add: cl)
qed

text \<open>
  C8 as stated speaks of every job; a job whose timeout does not parse returns
  before the cleanup is deferred, and its declared cleanup script never runs.
\<close>

theorem evaluateTask_cleanup_deferred_counterexample:
  "Cleanup (sampleTask\<lparr>Timeout := ''bogus''\<rparr>) = ''cleanup.sh''
   \<and> Result (fst (evaluateTask sampleWorld sampleConfig ''scale''
                     (sampleTask\<lparr>Timeout := ''bogus''\<rparr>) sampleLLM)) = ''fail''
   \<and> snd (evaluateTask sampleWorld sampleConfig ''scale''
             (sampleTask\<lparr>Timeout := ''bogus''\<rparr>) sampleLLM) = []"
  by code_simp

theorem evaluateTask_cleanup_deferred_witness:
  "taskTimeout agentFailsWorld sampleTask = Inr 1000000000
   \<and> filepath_Abs agentFailsWorld
         (filepath_Join agentFailsWorld [TasksDir vclusterConfig, ''scale''])
       = Inr ''/tasks/scale''
   \<and> Result (fst (evaluateTask agentAndCleanupFailWorld vclusterConfig ''scale'' sampleTask sampleLLM))
       = ''error''
   \<and> execPhases (snd (evaluateTask agentAndCleanupFailWorld vclusterConfig ''scale'' sampleTask sampleLLM))
       = [SetupPhase, AgentPhase, CleanupPhase]
   \<and> deletions (snd (evaluateTask agentAndCleanupFailWorld vclusterConfig ''scale'' sampleTask sampleLLM))
       = [''k8s-ai-bench-scale'']
   \<and> fst (evaluateTask agentAndCleanupFailWorld vclusterConfig ''scale'' sampleTask sampleLLM)
       = fst (evaluateTask agentFailsWorld vclusterConfig ''scale'' sampleTask sampleLLM)"
proof -
  let ?w = agentFailsWorld
  let ?x0 = "(newTaskExecution ?w vclusterConfig ''scale'' sampleTask sampleLLM
                (emptyResult ''scale'' sampleLLM))\<lparr>taskDir := ''/tasks/scale''\<rparr>"
  have h1: "taskTimeout ?w sampleTask = Inr 1000000000"
    by code_simp
  have h2: "filepath_Abs ?w (filepath_Join ?w [TasksDir vclusterConfig, ''scale'']) = Inr ''/tasks/scale''"
    by code_simp
  have h3: "evaluateTask_body ?w 1000000000 ?x0
            = (fst (evaluateTask_body ?w 1000000000 ?x0), snd (evaluateTask_body ?w 1000000000 ?x0))"
    by simp
  note th = evaluateTask_cleanup_deferred [OF h1 h2 h3]
  have same: "fst (evaluateTask agentAndCleanupFailWorld vclusterConfig ''scale'' sampleTask sampleLLM)
       = fst (evaluateTask ?w vclusterConfig ''scale'' sampleTask sampleLLM)"
    using th unfolding agentAndCleanupFailWorld_def by metis
  have g3: "Result (fst (evaluateTask agentAndCleanupFailWorld vclusterConfig ''scale'' sampleTask sampleLLM))
       = ''error''"
    by code_simp
  have g4: "execPhases (snd (evaluateTask agentAndCleanupFailWorld vclusterConfig ''scale'' sampleTask sampleLLM))
       = [SetupPhase, AgentPhase, CleanupPhase]"
    by code_simp
  have g5: "deletions (snd (evaluateTask agentAndCleanupFailWorld vclusterConfig ''scale'' sampleTask sampleLLM))
       = [''k8s-ai-bench-scale'']"
    by code_simp
  from h1 h2 g3 g4 g5 same show ?thesis by blast
qed

section \<open>Loading the tasks\<close>

lemma loadTasks_loop_fail:
  assumes "considered flt entry"
    and "readTask w config (Name entry) = Inl err"
    and "\<forall>e \<in> set pre. considered flt e \<longrightarrow> (\<exists>t. readTask w config (Name e) = Inr t)"
  shows "loadTasks_loop w config flt (pre @ entry # post) tasks = Inl err"
  using assms(3)
proof (induction pre arbitrary: tasks)
  case Nil
  show ?case using assms(1,2) by (simp add: considered_def split: option.splits)
next
  case (Cons e pre)
  then show ?case
    by (auto simp: considered_def split: option.splits sum.splits)
qed

lemma loadTasks_loop_ok:
  assumes "\<forall>e \<in> set entries. considered flt e \<longrightarrow> (\<exists>t. readTask w config (Name e) = Inr t)"
  shows "\<exists>tasks. loadTasks_loop w config flt entries acc = Inr tasks
           \<and> dom tasks = dom acc \<union> {Name e | e. e \<in> set entries \<and> considered flt e
                                     \<and> (\<exists>t. readTask w config (Name e) = Inr t \<and> \<not> Disabled t)}
           \<and> (\<forall>tid t. tasks tid = Some t \<longrightarrow>
                  acc tid = Some t
                \<or> ((\<exists>e \<in> set entries. Name e = tid \<and> considered flt e)
                    \<and> readTask w config tid = Inr t \<and> \<not> Disabled t))"
  using assms
proof (induction entries arbitrary: acc)
  case Nil
  show ?case by simp
next
  case (Cons e entries)
  have rest: "\<forall>e \<in> set entries. considered flt e \<longrightarrow> (\<exists>t. readTask w config (Name e) = Inr t)"
    using Cons.prems by simp
  show ?case
  proof (cases "considered flt e")
    case False
    then have skip: "loadTasks_loop w config flt (e # entries) acc = loadTasks_loop w config flt entries acc"
      by (auto simp: considered_def split: option.splits)
    from Cons.IH [OF rest, of acc] obtain tasks where
      t: "loadTasks_loop w config flt entries acc = Inr tasks"
         "dom tasks = dom acc \<union> {Name e | e. e \<in> set entries \<and> considered flt e
                                     \<and> (\<exists>t. readTask w config (Name e) = Inr t \<and> \<not> Disabled t)}"
         "\<forall>tid t. tasks tid = Some t \<longrightarrow>
                  acc tid = Some t
                \<or> ((\<exists>e \<in> set entries. Name e = tid \<and> considered flt e)
                    \<and> readTask w config tid = Inr t \<and> \<not> Disabled t)"
      by blast
    have d: "{Name x | x. x \<in> set (e # entries) \<and> considered flt x
                 \<and> (\<exists>t. readTask w config (Name x) = Inr t \<and> \<not> Disabled t)}
           = {Name x | x. x \<in> set entries \<and> considered flt x
                 \<and> (\<exists>t. readTask w config (Name x) = Inr t \<and> \<not> Disabled t)}"
      using False by auto
    show ?thesis
      unfolding skip d using t by auto
  next
    case True
    then obtain t0 where r: "readTask w config (Name e) = Inr t0"
      using Cons.prems by auto
    show ?thesis
    proof (cases "Disabled t0")
      case dis: True
      have skip: "loadTasks_loop w config flt (e # entries) acc = loadTasks_loop w config flt entries acc"
        using True r dis by (auto simp: considered_def split: option.splits)
      from Cons.IH [OF rest, of acc] obtain tasks where
        t: "loadTasks_loop w config flt entries acc = Inr tasks"
           "dom tasks = dom acc \<union> {Name e | e. e \<in> set entries \<and> considered flt e
                                     \<and> (\<exists>t. readTask w config (Name e) = Inr t \<and> \<not> Disabled t)}"
           "\<forall>tid t. tasks tid = Some t \<longrightarrow>
                  acc tid = Some t
                \<or> ((\<exists>e \<in> set entries. Name e = tid \<and> considered flt e)
                    \<and> readTask w config tid = Inr t \<and> \<not> Disabled t)"
        by blast
      have d: "{Name x | x. x \<in> set (e # entries) \<and> considered flt x
                 \<and> (\<exists>t. readTask w config (Name x) = Inr t \<and> \<not> Disabled t)}
           = {Name x | x. x \<in> set entries \<and> considered flt x
                 \<and> (\<exists>t. readTask w config (Name x) = Inr t \<and> \<not> Disabled t)}"
        using r dis by auto
      show ?thesis
        unfolding skip d using t by auto
    next
      case en: False
      have step: "loadTasks_loop w config flt (e # entries) acc
                  = loadTasks_loop w config flt entries (acc(Name e \<mapsto> t0))"
        using True r en by (auto simp: considered_def split: option.splits)
      from Cons.IH [OF rest, of "acc(Name e \<mapsto> t0)"] obtain tasks where
        t: "loadTasks_loop w config flt entries (acc(Name e \<mapsto> t0)) = Inr tasks"
           "dom tasks = dom (acc(Name e \<mapsto> t0)) \<union> {Name e | e. e \<in> set entries \<and> considered flt e
                                     \<and> (\<exists>t. readTask w config (Name e) = Inr t \<and> \<not> Disabled t)}"
           "\<forall>tid t. tasks tid = Some t \<longrightarrow>
                  (acc(Name e \<mapsto> t0)) tid = Some t
                \<or> ((\<exists>e \<in> set entries. Name e = tid \<and> considered flt e)
                    \<and> readTask w config tid = Inr t \<and> \<not> Disabled t)"
        by blast
      have d: "{Name x | x. x \<in> set (e # entries) \<and> considered flt x
                 \<and> (\<exists>t. readTask w config (Name x) = Inr t \<and> \<not> Disabled t)}
           = insert (Name e) {Name x | x. x \<in> set entries \<and> considered flt x
                 \<and> (\<exists>t. readTask w config (Name x) = Inr t \<and> \<not> Disabled t)}"
        using True r en by auto
      have dm: "dom tasks = dom acc \<union> {Name x | x. x \<in> set (e # entries) \<and> considered flt x
                 \<and> (\<exists>t. readTask w config (Name x) = Inr t \<and> \<not> Disabled t)}"
        unfolding d using t(2) by auto
      have vals: "\<forall>tid t. tasks tid = Some t \<longrightarrow>
                  acc tid = Some t
                \<or> ((\<exists>x \<in> set (e # entries). Name x = tid \<and> considered flt x)
                    \<and> readTask w config tid = Inr t \<and> \<not> Disabled t)"
      proof (intro allI impI)
        fix tid t
        assume "tasks tid = Some t"
        with t(3) have "(acc(Name e \<mapsto> t0)) tid = Some t
                \<or> ((\<exists>e \<in> set entries. Name e = tid \<and> considered flt e)
                    \<and> readTask w config tid = Inr t \<and> \<not> Disabled t)"
          by blast
        then show "acc tid = Some t
                \<or> ((\<exists>x \<in> set (e # entries). Name x = tid \<and> considered flt x)
                    \<and> readTask w config tid = Inr t \<and> \<not> Disabled t)"
          using True r en by (cases "tid = Name e") auto
      qed
      show ?thesis
        unfolding step using t(1) dm vals by blast
    qed
  qed
qed

lemma readTask_error:
  assumes "readTask w config tid = Inl err"
  shows "\<exists>cause. (err = Wrap (''failed to read task file '' @ taskFilePath w config tid @ '': '') cause
                   \<and> ReadFile w (taskFilePath w config tid) = Inl cause)
               \<or> (err = Wrap (''failed to parse task file '' @ taskFilePath w config tid @ '': '') cause
                   \<and> (\<exists>data. ReadFile w (taskFilePath w config tid) = Inr data
                             \<and> yaml_Unmarshal w data = Inl cause))"
  using assms by (auto simp: readTask_def Let_def split: sum.splits)


text \<open>
  C9: given a tasks directory that can be listed (and a filter pattern that compiles),
  \<open>loadTasks\<close> fails on the first task file, among those of the directories the
  filter lets through, that cannot be read or parsed: it returns the error that wraps
  the path of that file and the underlying error, and no mapping. When every such
  file reads and parses, it returns a mapping whose keys are exactly the names of the
  directories that match the filter and whose task is not disabled; entries that do
  not match the filter (their files are not read) and disabled tasks are skipped
  without error.
\<close>

theorem loadTasks_fails_or_filters:
  assumes flt_ok: "taskFilter w config = Inr flt"
    and dir_ok: "ReadDir w (TasksDir config) = Inr entries"
  shows "(\<forall>pre entry post err.
            entries = pre @ entry # post \<and> considered flt entry
            \<and> readTask w config (Name entry) = Inl err
            \<and> (\<forall>e \<in> set pre. considered flt e \<longrightarrow> (\<exists>t. readTask w config (Name e) = Inr t))
            \<longrightarrow> loadTasks w config = Inl err
              \<and> (\<exists>cause.
                    (err = Wrap (''failed to read task file ''
                                 @ taskFilePath w config (Name entry) @ '': '') cause
                     \<and> ReadFile w (taskFilePath w config (Name entry)) = Inl cause)
                  \<or> (err = Wrap (''failed to parse task file ''
                                 @ taskFilePath w config (Name entry) @ '': '') cause
                     \<and> (\<exists>data. ReadFile w (taskFilePath w config (Name entry)) = Inr data
                               \<and> yaml_Unmarshal w data = Inl cause))))
       \<and> ((\<forall>e \<in> set entries. considered flt e \<longrightarrow> (\<exists>t. readTask w config (Name e) = Inr t))
            \<longrightarrow> (\<exists>tasks. loadTasks w config = Inr tasks
                   \<and> dom tasks = Name ` set (filter (loadable w config flt) entries)
                   \<and> (\<forall>tid t. tasks tid = Some t \<longrightarrow>
                          (\<exists>e \<in> set entries. Name e = tid \<and> considered flt e)
                        \<and> readTask w config tid = Inr t \<and> \<not> Disabled t)))"
    (is "?fails \<and> ?loads")
proof (rule conjI)
  have run: "loadTasks w config = loadTasks_loop w config flt entries Map.empty"
    using flt_ok dir_ok by (simp add: loadTasks_def)
  show ?fails
  proof (intro allI impI)
    fix pre entry post err
    assume h: "entries = pre @ entry # post \<and> considered flt entry
            \<and> readTask w config (Name entry) = Inl err
            \<and> (\<forall>e \<in> set pre. considered flt e \<longrightarrow> (\<exists>t. readTask w config (Name e) = Inr t))"
    from h have h1: "entries = pre @ entry # post" by (rule conjunct1)
    from h have h2: "considered flt entry" by simp
    from h have h3: "readTask w config (Name entry) = Inl err" by simp
    from h have h4: "\<forall>e \<in> set pre. considered flt e \<longrightarrow> (\<exists>t. readTask w config (Name e) = Inr t)"
      by simp
    have "loadTasks w config = Inl err"
      unfolding run h1 by (rule loadTasks_loop_fail [OF h2 h3 h4])
    with readTask_error [OF h3]
    show "loadTasks w config = Inl err
              \<and> (\<exists>cause.
                    (err = Wrap (''failed to read task file ''
                                 @ taskFilePath w config (Name entry) @ '': '') cause
                     \<and> ReadFile w (taskFilePath w config (Name entry)) = Inl cause)
                  \<or> (err = Wrap (''failed to parse task file ''
                                 @ taskFilePath w config (Name entry) @ '': '') cause
                     \<and> (\<exists>data. ReadFile w (taskFilePath w config (Name entry)) = Inr data
                               \<and> yaml_Unmarshal w data = Inl cause)))"
      by (rule conjI [rotated])
  qed
  show ?loads
  proof (rule impI)
    assume ok: "\<forall>e \<in> set entries. considered flt e \<longrightarrow> (\<exists>t. readTask w config (Name e) = Inr t)"
    have keys: "{Name e | e. e \<in> set entries \<and> considered flt e
                   \<and> (\<exists>t. readTask w config (Name e) = Inr t \<and> \<not> Disabled t)}
                = Name ` set (filter (loadable w config flt) entries)"
    proof -
      have iff: "loadable w config flt e \<longleftrightarrow>
                 considered flt e \<and> (\<exists>t. readTask w config (Name e) = Inr t \<and> \<not> Disabled t)" for e
        by (cases "readTask w config (Name e)") (simp_all add: loadable_def)
      show ?thesis by (auto simp: iff)
    qed
    from loadTasks_loop_ok [OF ok, of Map.empty]
    show "\<exists>tasks. loadTasks w config = Inr tasks
                   \<and> dom tasks = Name ` set (filter (loadable w config flt) entries)
                   \<and> (\<forall>tid t. tasks tid = Some t \<longrightarrow>
                          (\<exists>e \<in> set entries. Name e = tid \<and> considered flt e)
                        \<and> readTask w config tid = Inr t \<and> \<not> Disabled t)"
      unfolding run keys by simp
  qed
qed

theorem loadTasks_fails_or_filters_witness:
  "taskFilter sampleWorld sampleConfig = Inr None
   \<and> ReadDir sampleWorld (TasksDir sampleConfig)
       = Inr [\<lparr>Name = ''README.md'', IsDir = False\<rparr>, \<lparr>Name = ''create-pod'', IsDir = True\<rparr>,
              \<lparr>Name = ''fix-probe'', IsDir = True\<rparr>, \<lparr>Name = ''scale'', IsDir = True\<rparr>]
   \<and> loadTasks sampleWorld sampleConfig
       = Inl (Wrap ''failed to read task file tasks/fix-probe/task.yaml: ''
                (Cause ''no such file or directory''))
   \<and> (\<exists>re. taskFilter sampleWorld (sampleConfig\<lparr>TaskPattern := ''a''\<rparr>) = Inr (Some re)
           \<and> re ''create-pod'' \<and> \<not> re ''fix-probe'' \<and> re ''scale'')
   \<and> (\<exists>tasks. loadTasks sampleWorld (sampleConfig\<lparr>TaskPattern := ''a''\<rparr>) = Inr tasks
              \<and> dom tasks = {''scale''})"
proof -
  let ?w = sampleWorld
  let ?es = "[\<lparr>Name = ''README.md'', IsDir = False\<rparr>, \<lparr>Name = ''create-pod'', IsDir = True\<rparr>,
              \<lparr>Name = ''fix-probe'', IsDir = True\<rparr>, \<lparr>Name = ''scale'', IsDir = True\<rparr>]"
  let ?cfg = "sampleConfig\<lparr>TaskPattern := ''a''\<rparr>"
  let ?re = "\<lambda>s. strings_Index s ''a'' \<noteq> - 1"
  have rd: "readTask ?w c ''create-pod'' = Inr (sampleTask\<lparr>Disabled := True\<rparr>)"
           "readTask ?w c ''scale'' = Inr sampleTask"
           "readTask ?w c ''fix-probe''
            = Inl (Wrap ''failed to read task file tasks/fix-probe/task.yaml: ''
                     (Cause ''no such file or directory''))"
    if "TasksDir c = ''tasks''" for c
    using that by (simp_all add: readTask_def taskFilePath_def sampleWorld_def Let_def)
  have dis: "\<not> Disabled sampleTask" "Disabled (sampleTask\<lparr>Disabled := True\<rparr>)"
    by (simp_all add: sampleTask_def)
  have td: "TasksDir sampleConfig = ''tasks''" "TasksDir ?cfg = ''tasks''"
    by (simp_all add: sampleConfig_def)
  have f1: "taskFilter ?w sampleConfig = Inr None"
    by (simp add: taskFilter_def sampleConfig_def)
  have d1: "ReadDir ?w (TasksDir sampleConfig) = Inr ?es"
    by (simp add: sampleWorld_def sampleConfig_def)
  have a: "?es = [\<lparr>Name = ''README.md'', IsDir = False\<rparr>, \<lparr>Name = ''create-pod'', IsDir = True\<rparr>]
                 @ \<lparr>Name = ''fix-probe'', IsDir = True\<rparr> # [\<lparr>Name = ''scale'', IsDir = True\<rparr>]"
    by simp
  note A = loadTasks_fails_or_filters [OF f1 d1, THEN conjunct1, rule_format,
      of "[\<lparr>Name = ''README.md'', IsDir = False\<rparr>, \<lparr>Name = ''create-pod'', IsDir = True\<rparr>]"
         "\<lparr>Name = ''fix-probe'', IsDir = True\<rparr>" "[\<lparr>Name = ''scale'', IsDir = True\<rparr>]"
         "Wrap ''failed to read task file tasks/fix-probe/task.yaml: ''
                     (Cause ''no such file or directory'')", THEN conjunct1]
  have fail: "loadTasks ?w sampleConfig
            = Inl (Wrap ''failed to read task file tasks/fix-probe/task.yaml: ''
                     (Cause ''no such file or directory''))"
    by (rule A) (simp add: rd [OF td(1)] considered_def)
  have f2: "taskFilter ?w ?cfg = Inr (Some ?re)"
    by (simp add: taskFilter_def sampleConfig_def sampleWorld_def)
  have m: "?re ''create-pod''" "\<not> ?re ''fix-probe''" "?re ''scale''"
    by simp_all
  have d2: "ReadDir ?w (TasksDir ?cfg) = Inr ?es"
    by (simp add: sampleWorld_def sampleConfig_def)
  have ok: "\<forall>e \<in> set ?es. considered (Some ?re) e \<longrightarrow> (\<exists>t. readTask ?w ?cfg (Name e) = Inr t)"
    using rd [OF td(2)] by (simp add: considered_def)
  have st: "Name ` set (filter (loadable ?w ?cfg (Some ?re)) ?es) = {''scale''}"
    using rd [OF td(2)] dis by (simp add: loadable_def considered_def)
  note B = loadTasks_fails_or_filters [OF f2 d2, THEN conjunct2, THEN mp, OF ok]
  from B obtain tasks where
    t: "loadTasks ?w ?cfg = Inr tasks"
       "dom tasks = Name ` set (filter (loadable ?w ?cfg (Some ?re)) ?es)"
    by (elim exE conjE)
  have loads: "\<exists>tasks. loadTasks ?w ?cfg = Inr tasks \<and> dom tasks = {''scale''}"
    using t unfolding st by (intro exI conjI)
  have flt: "\<exists>re. taskFilter ?w ?cfg = Inr (Some re)
           \<and> re ''create-pod'' \<and> \<not> re ''fix-probe'' \<and> re ''scale''"
    using f2 m by (intro exI conjI)
  from f1 d1 fail flt loads show ?thesis by (intro conjI)
qed

section \<open>Provisioning with retries\<close>

lemma upt_3: "[0..<3] = [0, 1, 2]"
  by (simp add: upt_rec)

lemma timeline_append [simp]: "timeline (xs @ ys) = timeline xs @ timeline ys"
  by (induction xs rule: timeline.induct) simp_all

lemma invocations_append [simp]: "invocations (xs @ ys) = invocations xs @ invocations ys"
  by (induction xs rule: invocations.induct) simp_all

lemma delays_append [simp]: "delays (xs @ ys) = delays xs @ delays ys"
  by (induction xs rule: delays.induct) simp_all

lemma kind_Create_cases:
  fixes run :: "nat \<Rightarrow> Cmd \<Rightarrow> error option"
  assumes c: "c = kind_createCmd name"
  shows "run 0 c = None \<Longrightarrow>
           fst (kind_Create q run name) = None
         \<and> timeline (snd (kind_Create q run name)) = [Run c]"
    and "run 0 c = Some e0 \<Longrightarrow> run 1 c = None \<Longrightarrow>
           fst (kind_Create q run name) = None
         \<and> timeline (snd (kind_Create q run name)) = [Run c, Sleep 5, Run c]"
    and "run 0 c = Some e0 \<Longrightarrow> run 1 c = Some e1 \<Longrightarrow> run 2 c = None \<Longrightarrow>
           fst (kind_Create q run name) = None
         \<and> timeline (snd (kind_Create q run name)) = [Run c, Sleep 5, Run c, Sleep 5, Run c]"
    and "run 0 c = Some e0 \<Longrightarrow> run 1 c = Some e1 \<Longrightarrow> run 2 c = Some e2 \<Longrightarrow>
           fst (kind_Create q run name)
             = Some (Wrap ''failed to create kind cluster after multiple retries: '' e2)
         \<and> timeline (snd (kind_Create q run name)) = [Run c, Sleep 5, Run c, Sleep 5, Run c]"
  unfolding c by (simp_all add: kind_Create_def upt_3 Let_def Errorf_w_def)

lemma vcluster_Create_cases:
  fixes run :: "nat \<Rightarrow> Cmd \<Rightarrow> error option"
  assumes c: "c = vcluster_createCmd p name"
  shows "run 0 c = None \<Longrightarrow>
           fst (vcluster_Create q run p name) = None
         \<and> timeline (snd (vcluster_Create q run p name)) = [Run c]"
    and "run 0 c = Some e0 \<Longrightarrow> run 1 c = None \<Longrightarrow>
           fst (vcluster_Create q run p name) = None
         \<and> timeline (snd (vcluster_Create q run p name)) = [Run c, Sleep 5, Run c]"
    and "run 0 c = Some e0 \<Longrightarrow> run 1 c = Some e1 \<Longrightarrow> run 2 c = None \<Longrightarrow>
           fst (vcluster_Create q run p name) = None
         \<and> timeline (snd (vcluster_Create q run p name)) = [Run c, Sleep 5, Run c, Sleep 5, Run c]"
    and "run 0 c = Some e0 \<Longrightarrow> run 1 c = Some e1 \<Longrightarrow> run 2 c = Some e2 \<Longrightarrow>
           fst (vcluster_Create q run p name)
             = Some (Wrap ''failed to create vcluster after multiple retries: '' e2)
         \<and> timeline (snd (vcluster_Create q run p name)) = [Run c, Sleep 5, Run c, Sleep 5, Run c]"
  unfolding c by (simp_all add: vcluster_Create_def upt_3 Let_def Errorf_w_def)


lemma invocations_timeline [simp]: "invocations (timeline evs) = invocations evs"
  by (induction evs rule: timeline.induct) simp_all

lemma delays_timeline [simp]: "delays (timeline evs) = delays evs"
  by (induction evs rule: timeline.induct) simp_all

lemma retryContract_intro:
  fixes run :: "nat \<Rightarrow> Cmd \<Rightarrow> error option"
  assumes c0: "run 0 c = None \<Longrightarrow> fst r = None \<and> timeline (snd r) = [Run c]"
    and c1: "\<And>e0. run 0 c = Some e0 \<Longrightarrow> run 1 c = None \<Longrightarrow>
               fst r = None \<and> timeline (snd r) = [Run c, Sleep 5, Run c]"
    and c2: "\<And>e0 e1. run 0 c = Some e0 \<Longrightarrow> run 1 c = Some e1 \<Longrightarrow> run 2 c = None \<Longrightarrow>
               fst r = None \<and> timeline (snd r) = [Run c, Sleep 5, Run c, Sleep 5, Run c]"
    and c3: "\<And>e0 e1 e2. run 0 c = Some e0 \<Longrightarrow> run 1 c = Some e1 \<Longrightarrow> run 2 c = Some e2 \<Longrightarrow>
               fst r = Some (Wrap msg e2)
             \<and> timeline (snd r) = [Run c, Sleep 5, Run c, Sleep 5, Run c]"
  shows "retryContract c run msg r"
proof -
  have counts: "invocations (snd r) = invocations (timeline (snd r))"
               "delays (snd r) = delays (timeline (snd r))"
    by simp_all
  have three: "i < 3 \<longleftrightarrow> i = 0 \<or> i = 1 \<or> i = 2" for i :: nat
    by auto
  have two: "i < 2 \<longleftrightarrow> i = 0 \<or> i = 1" for i :: nat
    by auto
  have r3: "replicate 3 x = [x, x, x]" "replicate 2 x = [x, x]" for x :: 'a
    by (simp_all add: numeral_3_eq_3 numeral_2_eq_2)
  show ?thesis
  proof (cases "run 0 c")
    case None
    from c0 [OF None] show ?thesis
      unfolding retryContract_def counts using None by (auto simp: three two)
  next
    case s0: (Some e0)
    show ?thesis
    proof (cases "run 1 c")
      case None
      from c1 [OF s0 None] show ?thesis
        unfolding retryContract_def counts using s0 None by (auto simp: three two)
    next
      case s1: (Some e1)
      show ?thesis
      proof (cases "run 2 c")
        case None
        from c2 [OF s0 s1 None] show ?thesis
          unfolding retryContract_def counts using s0 s1 None
          by (auto simp: three two r3)
      next
        case s2: (Some e2)
        from c3 [OF s0 s1 s2] show ?thesis
          unfolding retryContract_def counts using s0 s1 s2
          by (auto simp: three two r3)
      qed
    qed
  qed
qed

lemma vcluster_Create_plain_cases:
  fixes run :: "nat \<Rightarrow> Cmd \<Rightarrow> error option"
  assumes c: "c = vcluster_createCmd_plain p name"
  shows "run 0 c = None \<Longrightarrow>
           fst (vcluster_Create_plain q run p name) = None
         \<and> timeline (snd (vcluster_Create_plain q run p name)) = [Run c]"
    and "run 0 c = Some e0 \<Longrightarrow> run 1 c = None \<Longrightarrow>
           fst (vcluster_Create_plain q run p name) = None
         \<and> timeline (snd (vcluster_Create_plain q run p name)) = [Run c, Sleep 5, Run c]"
    and "run 0 c = Some e0 \<Longrightarrow> run 1 c = Some e1 \<Longrightarrow> run 2 c = None \<Longrightarrow>
           fst (vcluster_Create_plain q run p name) = None
         \<and> timeline (snd (vcluster_Create_plain q run p name))
             = [Run c, Sleep 5, Run c, Sleep 5, Run c]"
    and "run 0 c = Some e0 \<Longrightarrow> run 1 c = Some e1 \<Longrightarrow> run 2 c = Some e2 \<Longrightarrow>
           fst (vcluster_Create_plain q run p name)
             = Some (Wrap ''failed to create vcluster after multiple retries: '' e2)
         \<and> timeline (snd (vcluster_Create_plain q run p name))
             = [Run c, Sleep 5, Run c, Sleep 5, Run c]"
  unfolding c by (simp_all add: vcluster_Create_plain_def upt_3 Let_def Errorf_w_def)

text \<open>
  The three \<open>Create\<close> functions written with the retry loop meet the contract, for
  every name and whatever the runs of the command give: that of the kind provider
  and those of the second and third version of the vcluster provider.
\<close>

lemma Create_with_loop_retries:
  "retryContract (kind_createCmd name) run
     ''failed to create kind cluster after multiple retries: '' (kind_Create q run name)
   \<and> retryContract (vcluster_createCmd p name) run
     ''failed to create vcluster after multiple retries: '' (vcluster_Create q run p name)
   \<and> retryContract (vcluster_createCmd_plain p name) run
     ''failed to create vcluster after multiple retries: '' (vcluster_Create_plain q run p name)"
proof (intro conjI)
  show "retryContract (kind_createCmd name) run
     ''failed to create kind cluster after multiple retries: '' (kind_Create q run name)"
    by (rule retryContract_intro) (rule kind_Create_cases [OF refl]; assumption)+
  show "retryContract (vcluster_createCmd p name) run
     ''failed to create vcluster after multiple retries: '' (vcluster_Create q run p name)"
    by (rule retryContract_intro) (rule vcluster_Create_cases [OF refl]; assumption)+
  show "retryContract (vcluster_createCmd_plain p name) run
     ''failed to create vcluster after multiple retries: '' (vcluster_Create_plain q run p name)"
    by (rule retryContract_intro) (rule vcluster_Create_plain_cases [OF refl]; assumption)+
qed

lemma Create_with_loop_retries_example:
  "failsTwice 0 (kind_createCmd ''eval'') = Some (Cause ''exit status 1'')
   \<and> failsTwice 1 (kind_createCmd ''eval'') = Some (Cause ''exit status 1'')
   \<and> failsTwice 2 (kind_createCmd ''eval'') = None
   \<and> fst (kind_Create (\<lambda>s. s) failsTwice ''eval'') = None
   \<and> length (invocations (snd (kind_Create (\<lambda>s. s) failsTwice ''eval''))) = 3
   \<and> delays (snd (kind_Create (\<lambda>s. s) failsTwice ''eval'')) = [5, 5]
   \<and> fst (vcluster_Create (\<lambda>s. s) failsTwice sampleProvider ''eval'') = None
   \<and> length (invocations (snd (vcluster_Create (\<lambda>s. s) failsTwice sampleProvider ''eval''))) = 3
   \<and> delays (snd (vcluster_Create (\<lambda>s. s) failsTwice sampleProvider ''eval'')) = [5, 5]"
proof -
  have f: "failsTwice 0 c = Some (Cause ''exit status 1'')"
          "failsTwice 1 c = Some (Cause ''exit status 1'')"
          "failsTwice 2 c = None" for c
    by (simp_all add: failsTwice_def)
  have pre: "(2::nat) < 3 \<and> (\<forall>j < 2. failsTwice j c \<noteq> None) \<and> failsTwice 2 c = None" for c
    by (simp add: failsTwice_def)
  note th = Create_with_loop_retries [of "''eval''" failsTwice "\<lambda>s. s" sampleProvider,
              unfolded retryContract_def]
  have k: "fst (kind_Create (\<lambda>s. s) failsTwice ''eval'') = None
        \<and> invocations (snd (kind_Create (\<lambda>s. s) failsTwice ''eval''))
            = replicate (2 + 1) (kind_createCmd ''eval'')
        \<and> delays (snd (kind_Create (\<lambda>s. s) failsTwice ''eval'')) = replicate 2 5"
    using th [THEN conjunct1, THEN conjunct2, THEN conjunct1, rule_format, of 2] pre by simp
  have v: "fst (vcluster_Create (\<lambda>s. s) failsTwice sampleProvider ''eval'') = None
        \<and> invocations (snd (vcluster_Create (\<lambda>s. s) failsTwice sampleProvider ''eval''))
            = replicate (2 + 1) (vcluster_createCmd sampleProvider ''eval'')
        \<and> delays (snd (vcluster_Create (\<lambda>s. s) failsTwice sampleProvider ''eval'')) = replicate 2 5"
    using th [THEN conjunct2, THEN conjunct1, THEN conjunct2, THEN conjunct1, rule_format, of 2] pre
    by simp
  have r2: "replicate 2 (5::nat) = [5, 5]"
    by (simp add: numeral_2_eq_2)
  from k v f show ?thesis by (simp add: r2)
qed

text \<open>
  C7: for every name, \<open>Create\<close> of the environment provider runs the provisioning
  command at most three times, sleeping five seconds before each retry; it returns
  nil as soon as a run succeeds, and after three failed runs it returns an error
  that wraps the last underlying error. \<open>Create\<close> of the vcluster provider with
  ingress departs from this: it has no loop. When the first run of the command
  fails, in a world where the second would fail too and the third succeed, it
  returns the error of that one run, unwrapped, after one run and no sleep; the
  \<open>Create\<close> functions with the loop end in the same world with nil after three
  runs and two sleeps.
\<close>

theorem vcluster_Create_ingress_single_attempt:
  "envReady ''eval'' = None
   \<and> valuesWritten ''eval'' = Inr ''/tmp/vcluster-values-1.yaml''
   \<and> failsTwice 0 (vcluster_createCmd_ingress sampleProvider ''eval'' ''/tmp/vcluster-values-1.yaml'')
       = Some (Cause ''exit status 1'')
   \<and> fst (vcluster_Create_ingress (\<lambda>s. s) envReady valuesWritten failsTwice sampleProvider ''eval'')
       = Some (Cause ''exit status 1'')
   \<and> invocations
         (snd (vcluster_Create_ingress (\<lambda>s. s) envReady valuesWritten failsTwice sampleProvider ''eval''))
       = [vcluster_createCmd_ingress sampleProvider ''eval'' ''/tmp/vcluster-values-1.yaml'']
   \<and> delays
         (snd (vcluster_Create_ingress (\<lambda>s. s) envReady valuesWritten failsTwice sampleProvider ''eval''))
       = []
   \<and> fst (vcluster_Create (\<lambda>s. s) failsTwice sampleProvider ''eval'') = None
   \<and> length (invocations (snd (vcluster_Create (\<lambda>s. s) failsTwice sampleProvider ''eval''))) = 3
   \<and> delays (snd (vcluster_Create (\<lambda>s. s) failsTwice sampleProvider ''eval'')) = [5, 5]"
  by code_simp

end
